theory Spec2Isabelle
  imports Complex_Main
begin

section \<open>Claude Usage Tracker: the refresh cycle and the display state\<close>

text \<open>
  A shallow embedding of \<^verbatim>\<open>src/claude_usage.py\<close>: the countdown formatter
  \<^verbatim>\<open>format_time_until\<close>, and the methods \<^verbatim>\<open>refresh\<close>,
  \<^verbatim>\<open>update_display\<close>, \<^verbatim>\<open>save_credentials\<close>, \<^verbatim>\<open>load_credentials\<close>
  and \<^verbatim>\<open>open_settings\<close> of \<^verbatim>\<open>ClaudeUsageApp\<close>.

  What the program takes from outside is a parameter of the model:
  \<^item> \<open>fromisoformat\<close>: Python's \<^verbatim>\<open>datetime.fromisoformat\<close>; \<open>None\<close> is its \<^verbatim>\<open>ValueError\<close>;
  \<^item> the clock: what \<^verbatim>\<open>datetime.now(timezone.utc)\<close> returns, in microseconds;
  \<^item> \<open>net\<close>: what \<^verbatim>\<open>ClaudeAPI.get_usage\<close> gets from the network for given credentials;
  \<^item> the answers of the user to the dialogs of the settings flow.
  Python exceptions are values of \<open>py_exception\<close>; a method that can raise after it
  has changed the application returns the exception together with the state reached.
\<close>

subsection \<open>Python values\<close>

datatype py_exception = AttributeError | ValueError | TypeError | OverflowError

text \<open>
  A \<^verbatim>\<open>float\<close>: a finite one is its sign (\<open>True\<close> for minus, so that negative zero is a
  value of its own) and its magnitude, which is read through the absolute value; the
  others are the infinities and NaN, which \<^verbatim>\<open>json\<close> reads from \<^verbatim>\<open>1e999\<close> and \<^verbatim>\<open>NaN\<close>.
  Every double is such a value.
\<close>

datatype py_float = Finite bool real | Inf bool | NaN

text \<open>
  What \<^verbatim>\<open>response.json()\<close> returns: \<^verbatim>\<open>None\<close> for null, a \<^verbatim>\<open>bool\<close>, an \<^verbatim>\<open>int\<close>, a
  \<^verbatim>\<open>float\<close>, a \<^verbatim>\<open>str\<close>, a \<^verbatim>\<open>list\<close>, or a \<^verbatim>\<open>dict\<close> with string keys. A \<^verbatim>\<open>dict\<close> is the
  list of its items, looked up with \<open>map_of\<close>.
\<close>

datatype pyval =
    PyNone
  | PyBool bool
  | PyInt int
  | PyFloat py_float
  | PyStr string
  | PyList "pyval list"
  | PyDict "(string \<times> pyval) list"

text \<open>Truthiness, as \<^verbatim>\<open>if x\<close> and \<^verbatim>\<open>not x\<close> test it.\<close>

fun truthy :: "pyval \<Rightarrow> bool" where
  "truthy PyNone = False"
| "truthy (PyBool b) = b"
| "truthy (PyInt i) = (i \<noteq> 0)"
| "truthy (PyFloat (Finite neg m)) = (m \<noteq> 0)"
| "truthy (PyFloat (Inf neg)) = True"
| "truthy (PyFloat NaN) = True"
| "truthy (PyStr s) = (s \<noteq> [])"
| "truthy (PyList xs) = (xs \<noteq> [])"
| "truthy (PyDict d) = (d \<noteq> [])"

text \<open>
  \<^verbatim>\<open>d.get(k, default)\<close> on a \<^verbatim>\<open>dict\<close>, and on any value: only a \<^verbatim>\<open>dict\<close> has the
  attribute \<^verbatim>\<open>get\<close>.
\<close>

definition dict_get :: "(string \<times> pyval) list \<Rightarrow> string \<Rightarrow> pyval \<Rightarrow> pyval" where
  "dict_get d k dflt = (case map_of d k of None \<Rightarrow> dflt | Some v \<Rightarrow> v)"

fun py_get :: "pyval \<Rightarrow> string \<Rightarrow> pyval \<Rightarrow> py_exception + pyval" where
  "py_get (PyDict d) k dflt = Inr (dict_get d k dflt)"
| "py_get v k dflt = Inl AttributeError"

text \<open>The chained expression \<^verbatim>\<open>u.get(k, {}).get(f, default)\<close> of lines 143 to 147.\<close>

definition get2 :: "pyval \<Rightarrow> string \<Rightarrow> string \<Rightarrow> pyval \<Rightarrow> py_exception + pyval" where
  "get2 u k f dflt =
     (case py_get u k (PyDict []) of Inl e \<Rightarrow> Inl e | Inr w \<Rightarrow> py_get w f dflt)"

subsection \<open>Printing numbers\<close>

text \<open>\<^verbatim>\<open>str(n)\<close> for an integer: decimal digits, a minus sign when negative.\<close>

definition digit_char :: "nat \<Rightarrow> char" where
  "digit_char d = ''0123456789'' ! d"

fun str_nat :: "nat \<Rightarrow> string" where
  "str_nat n = (if n < 10 then [digit_char n] else str_nat (n div 10) @ [digit_char (n mod 10)])"

declare str_nat.simps [simp del]

definition str_int :: "int \<Rightarrow> string" where
  "str_int i = (if i < 0 then ''-'' @ str_nat (nat (- i)) else str_nat (nat i))"

text \<open>Rounding to a whole number, a tie going to the even neighbour.\<close>

definition round_half_even :: "real \<Rightarrow> int" where
  "round_half_even x =
     (let f = \<lfloor>x\<rfloor>; d = x - of_int f
      in if d < 1 / 2 then f
         else if 1 / 2 < d then f + 1
         else if even f then f else f + 1)"

text \<open>
  The double nearest to the quotient \<open>n / D\<close> of two integers, as Python's true division
  of integers and its conversion of an \<^verbatim>\<open>int\<close> to a \<^verbatim>\<open>float\<close> compute it: the quotient is
  scaled by a power of two into the range of a 53-bit mantissa, rounded there with ties
  to even, and scaled back. \<open>shift_up\<close> finds the scaling of a quotient below \<open>2 ^ 52\<close>,
  \<open>shift_down\<close> that of a quotient from \<open>2 ^ 53\<close> on. (The quotients of this program are
  0 or at least \<open>1 / 1000000\<close>, far from the subnormal range.)
\<close>

function shift_up :: "nat \<Rightarrow> nat \<Rightarrow> nat \<Rightarrow> nat" where
  "shift_up n D k = (if 0 < n \<and> n * 2 ^ k < D * 2 ^ 52 then shift_up n D (Suc k) else k)"
  by pat_completeness auto
termination
proof (relation "measure (\<lambda>(n, D, k). D * 2 ^ 52 - n * 2 ^ k)")
  show "wf (measure (\<lambda>(n, D, k). D * 2 ^ 52 - n * 2 ^ k))"
    by simp
next
  fix n D k :: nat
  assume a: "0 < n \<and> n * 2 ^ k < D * 2 ^ 52"
  define b where "b = n * 2 ^ k"
  have "0 < b" and "n * 2 ^ Suc k = 2 * b"
    using a by (simp_all add: b_def)
  moreover have "b < D * 2 ^ 52"
    using a by (simp add: b_def)
  ultimately have "D * 2 ^ 52 - n * 2 ^ Suc k < D * 2 ^ 52 - b"
    by linarith
  then show "((n, D, Suc k), (n, D, k)) \<in> measure (\<lambda>(n, D, k). D * 2 ^ 52 - n * 2 ^ k)"
    by (simp add: b_def)
qed

function shift_down :: "nat \<Rightarrow> nat \<Rightarrow> nat \<Rightarrow> nat" where
  "shift_down n D j =
     (if 0 < D \<and> D * 2 ^ 53 * 2 ^ j \<le> n then shift_down n D (Suc j) else j)"
  by pat_completeness auto
termination
proof (relation "measure (\<lambda>(n, D, j). Suc n - D * 2 ^ 53 * 2 ^ j)")
  show "wf (measure (\<lambda>(n, D, j). Suc n - D * 2 ^ 53 * 2 ^ j))"
    by simp
next
  fix n D j :: nat
  assume a: "0 < D \<and> D * 2 ^ 53 * 2 ^ j \<le> n"
  define b where "b = D * 2 ^ 53 * 2 ^ j"
  have "0 < b" and "D * 2 ^ 53 * 2 ^ Suc j = 2 * b"
    using a by (simp_all add: b_def)
  moreover have "b \<le> n"
    using a by (simp add: b_def)
  ultimately have "Suc n - D * 2 ^ 53 * 2 ^ Suc j < Suc n - b"
    by linarith
  then show "((n, D, Suc j), (n, D, j)) \<in> measure (\<lambda>(n, D, j). Suc n - D * 2 ^ 53 * 2 ^ j)"
    by (simp add: b_def)
qed

declare shift_up.simps [simp del] shift_down.simps [simp del]

definition double_of_ratio :: "nat \<Rightarrow> nat \<Rightarrow> real" where
  "double_of_ratio n D =
     (if n < D * 2 ^ 53
      then let k = shift_up n D 0
           in of_int (round_half_even (of_nat (n * 2 ^ k) / of_nat D)) / 2 ^ k
      else let j = shift_down n D 0
           in of_int (round_half_even (of_nat n / of_nat (D * 2 ^ j))) * 2 ^ j)"

text \<open>
  \<^verbatim>\<open>float(i)\<close> for an \<^verbatim>\<open>int\<close>: the nearest double, \<^verbatim>\<open>OverflowError\<close> when that is
  \<open>2 ^ 1024\<close> or more.
\<close>

definition float_of_int :: "int \<Rightarrow> py_exception + py_float" where
  "float_of_int i =
     (let m = double_of_ratio (nat \<bar>i\<bar>) 1
      in if 2 ^ 1024 \<le> m then Inl OverflowError else Inr (Finite (i < 0) m))"

text \<open>
  The format specification \<^verbatim>\<open>.0f\<close>. A \<^verbatim>\<open>float\<close> is printed with no fractional digit,
  rounded on its exact value with ties going to the even neighbour, the sign first
  (also that of negative zero); an \<^verbatim>\<open>int\<close> or \<^verbatim>\<open>bool\<close> is converted to a \<^verbatim>\<open>float\<close>
  first; a string raises \<^verbatim>\<open>ValueError\<close>; \<^verbatim>\<open>None\<close>, a \<^verbatim>\<open>list\<close> and a \<^verbatim>\<open>dict\<close> raise
  \<^verbatim>\<open>TypeError\<close>.
\<close>

fun fmt_float :: "py_float \<Rightarrow> string" where
  "fmt_float (Finite neg m) =
     (if neg then ''-'' else '''') @ str_nat (nat (round_half_even \<bar>m\<bar>))"
| "fmt_float (Inf neg) = (if neg then ''-'' else '''') @ ''inf''"
| "fmt_float NaN = ''nan''"

fun format_f0 :: "pyval \<Rightarrow> py_exception + string" where
  "format_f0 (PyFloat x) = Inr (fmt_float x)"
| "format_f0 (PyInt i) =
     (case float_of_int i of Inl e \<Rightarrow> Inl e | Inr x \<Rightarrow> Inr (fmt_float x))"
| "format_f0 (PyBool b) = Inr (fmt_float (Finite False (if b then 1 else 0)))"
| "format_f0 (PyStr s) = Inl ValueError"
| "format_f0 PyNone = Inl TypeError"
| "format_f0 (PyList xs) = Inl TypeError"
| "format_f0 (PyDict d) = Inl TypeError"

subsection \<open>Strings\<close>

text \<open>\<^verbatim>\<open>s.replace('Z', '+00:00')\<close>: every occurrence is replaced.\<close>

fun replace_Z :: "string \<Rightarrow> string" where
  "replace_Z [] = []"
| "replace_Z (c # cs) = (if c = CHR ''Z'' then ''+00:00'' @ replace_Z cs else c # replace_Z cs)"

text \<open>
  \<^verbatim>\<open>s.strip()\<close>. A \<open>char\<close> is a code point below 256; \<open>isspace\<close> lists those for
  which Python's \<^verbatim>\<open>str.isspace\<close> holds.
\<close>

definition isspace :: "char \<Rightarrow> bool" where
  "isspace c = (of_char c \<in> {9, 10, 11, 12, 13, 28, 29, 30, 31, 32, 133, 160 :: nat})"

definition strip :: "string \<Rightarrow> string" where
  "strip s = rev (dropWhile isspace (rev (dropWhile isspace s)))"

subsection \<open>The countdown: \<^verbatim>\<open>format_time_until\<close>\<close>

text \<open>
  A \<^verbatim>\<open>datetime\<close> is naive (no offset) or aware; an aware one is the instant it denotes, in
  microseconds since the epoch. Subtracting an aware \<^verbatim>\<open>datetime\<close> from a naive one
  raises \<^verbatim>\<open>TypeError\<close>. A \<^verbatim>\<open>timedelta\<close> is its length in microseconds.
\<close>

datatype py_datetime = Naive int | Aware int

fun sub_aware :: "py_datetime \<Rightarrow> int \<Rightarrow> py_exception + int" where
  "sub_aware (Aware t) now = Inr (t - now)"
| "sub_aware (Naive t) now = Inl TypeError"

text \<open>
  \<^verbatim>\<open>timedelta.total_seconds()\<close> divides the microseconds by \<open>10 ^ 6\<close> and returns the
  nearest double. (A \<^verbatim>\<open>timedelta\<close> is shorter than \<open>10 ^ 9\<close> days, so the division never
  overflows.)
\<close>

definition total_seconds :: "int \<Rightarrow> real" where
  "total_seconds d =
     (if d < 0 then - double_of_ratio (nat (- d)) 1000000
      else double_of_ratio (nat d) 1000000)"

text \<open>\<^verbatim>\<open>int(x)\<close> truncates towards zero.\<close>

definition py_int :: "real \<Rightarrow> int" where
  "py_int x = (if 0 \<le> x then \<lfloor>x\<rfloor> else \<lceil>x\<rceil>)"

text \<open>The body of the \<^verbatim>\<open>try\<close> block: lines 52 to 64.\<close>

definition format_time_until_try ::
  "(string \<Rightarrow> py_datetime option) \<Rightarrow> int \<Rightarrow> pyval \<Rightarrow> py_exception + string" where
  "format_time_until_try fromisoformat now reset_time =
     (case reset_time of
        PyStr s \<Rightarrow>
          (case fromisoformat (replace_Z s) of
             None \<Rightarrow> Inl ValueError
           | Some reset_dt \<Rightarrow>
               (case sub_aware reset_dt now of
                  Inl e \<Rightarrow> Inl e
                | Inr diff \<Rightarrow>
                    if total_seconds diff \<le> 0 then Inr ''now''
                    else
                      let secs = py_int (total_seconds diff);
                          hours = secs div 3600;
                          remainder = secs mod 3600;
                          minutes = remainder div 60
                      in if 0 < hours then Inr (str_int hours @ ''h '' @ str_int minutes @ ''m'')
                         else Inr (str_int minutes @ ''m'')))
      | _ \<Rightarrow> Inl AttributeError)"

text \<open>\<^verbatim>\<open>except Exception: return "?"\<close>\<close>

definition format_time_until :: "(string \<Rightarrow> py_datetime option) \<Rightarrow> int \<Rightarrow> pyval \<Rightarrow> string" where
  "format_time_until fromisoformat now reset_time =
     (case format_time_until_try fromisoformat now reset_time of Inl e \<Rightarrow> ''?'' | Inr s \<Rightarrow> s)"

text \<open>
  The conditional expression of lines 158, 161 and 165:
  \<^verbatim>\<open>format_time_until(reset) if reset else "?"\<close>.
\<close>

definition time_text :: "(string \<Rightarrow> py_datetime option) \<Rightarrow> int \<Rightarrow> pyval \<Rightarrow> string" where
  "time_text fromisoformat now reset =
     (if truthy reset then format_time_until fromisoformat now reset else ''?'')"

subsection \<open>The application\<close>

text \<open>
  \<open>app\<close> holds the attributes of \<^verbatim>\<open>ClaudeUsageApp\<close> the methods write (the client, the last
  snapshot, the title and the titles of the three menu rows) and what they do to the world:
  the passwords of the keyring under \<^verbatim>\<open>KEYRING_SERVICE\<close> with the calls of
  \<^verbatim>\<open>keyring.set_password\<close>, the requests \<^verbatim>\<open>get_usage\<close> has sent, the dialogs shown (by
  title) and the pages opened in the browser. \<open>usage_data\<close> is \<open>None\<close> for Python's
  \<^verbatim>\<open>None\<close> and the parsed body otherwise.
\<close>

record claude_api =
  session_key :: string
  org_id :: string

record app =
  api :: "claude_api option"
  usage_data :: "pyval option"
  title :: string
  session_limit :: string
  weekly_limit :: string
  sonnet_limit :: string
  keyring :: "string \<rightharpoonup> string"
  set_password_calls :: "(string \<times> string) list"
  get_calls :: "claude_api list"
  alerts :: "string list"
  windows :: "string list"
  browser :: "string list"

text \<open>
  The value \<^verbatim>\<open>datetime.now(timezone.utc)\<close> has when \<^verbatim>\<open>format_time_until\<close> is called for
  the session, the weekly and the Sonnet row of one \<^verbatim>\<open>update_display\<close>.
\<close>

record clock =
  now_session :: int
  now_weekly :: int
  now_sonnet :: int

definition KEYRING_SESSION_KEY :: string where
  "KEYRING_SESSION_KEY = ''session_key''"

definition KEYRING_ORG_ID :: string where
  "KEYRING_ORG_ID = ''org_id''"

definition load_credentials :: "app \<Rightarrow> app" where
  "load_credentials st =
     (case (keyring st KEYRING_SESSION_KEY, keyring st KEYRING_ORG_ID) of
        (Some skey, Some oid) \<Rightarrow>
          if skey \<noteq> [] \<and> oid \<noteq> []
          then st\<lparr>api := Some \<lparr>session_key = skey, org_id = oid\<rparr>\<rparr>
          else st\<lparr>api := None\<rparr>
      | _ \<Rightarrow> st\<lparr>api := None\<rparr>)"

definition save_credentials :: "string \<Rightarrow> string \<Rightarrow> app \<Rightarrow> app" where
  "save_credentials skey oid st =
     st\<lparr>keyring := (keyring st)(KEYRING_SESSION_KEY \<mapsto> skey, KEYRING_ORG_ID \<mapsto> oid),
        set_password_calls :=
          set_password_calls st @ [(KEYRING_SESSION_KEY, skey), (KEYRING_ORG_ID, oid)],
        api := Some \<lparr>session_key = skey, org_id = oid\<rparr>\<rparr>"

text \<open>
  \<^verbatim>\<open>ClaudeAPI.get_usage\<close>: one request; \<open>net a\<close> is the parsed body, or \<open>None\<close> when
  \<^verbatim>\<open>requests\<close> raised and the method returned \<^verbatim>\<open>None\<close>.
\<close>

definition get_usage ::
  "(claude_api \<Rightarrow> pyval option) \<Rightarrow> claude_api \<Rightarrow> app \<Rightarrow> pyval option \<times> app" where
  "get_usage net a st = (net a, st\<lparr>get_calls := get_calls st @ [a]\<rparr>)"

text \<open>
  Lines 143 to 152 of \<^verbatim>\<open>update_display\<close>: the session and weekly percentage and reset
  time, then the Sonnet percentage and reset time. A window that is not a \<^verbatim>\<open>dict\<close>
  raises \<^verbatim>\<open>AttributeError\<close> at its \<^verbatim>\<open>get\<close>; the Sonnet window is asked only when truthy.
\<close>

definition extract_fields ::
  "pyval \<Rightarrow> py_exception + (pyval \<times> pyval \<times> pyval \<times> pyval \<times> pyval \<times> pyval)" where
  "extract_fields u =
     (case get2 u ''five_hour'' ''percent_used'' (PyInt 0) of
        Inl e \<Rightarrow> Inl e
      | Inr session_pct \<Rightarrow>
     (case get2 u ''five_hour'' ''resets_at'' (PyStr '''') of
        Inl e \<Rightarrow> Inl e
      | Inr session_reset \<Rightarrow>
     (case get2 u ''seven_day'' ''percent_used'' (PyInt 0) of
        Inl e \<Rightarrow> Inl e
      | Inr weekly_pct \<Rightarrow>
     (case get2 u ''seven_day'' ''resets_at'' (PyStr '''') of
        Inl e \<Rightarrow> Inl e
      | Inr weekly_reset \<Rightarrow>
     (case py_get u ''seven_day_sonnet'' (PyDict []) of
        Inl e \<Rightarrow> Inl e
      | Inr sonnet_data \<Rightarrow>
     (case (if truthy sonnet_data then py_get sonnet_data ''percent_used'' (PyInt 0)
            else Inr PyNone) of
        Inl e \<Rightarrow> Inl e
      | Inr sonnet_pct \<Rightarrow>
     (case (if truthy sonnet_data then py_get sonnet_data ''resets_at'' (PyStr '''')
            else Inr (PyStr '''')) of
        Inl e \<Rightarrow> Inl e
      | Inr sonnet_reset \<Rightarrow>
          Inr (session_pct, session_reset, weekly_pct, weekly_reset,
               sonnet_pct, sonnet_reset))))))))"

text \<open>
  \<^verbatim>\<open>update_display\<close>, lines 137 to 168. After the extraction, the three f-strings with
  \<^verbatim>\<open>:.0f\<close> can raise; what was assigned before stays assigned.
\<close>

definition update_display ::
  "(string \<Rightarrow> py_datetime option) \<Rightarrow> clock \<Rightarrow> app \<Rightarrow> py_exception option \<times> app" where
  "update_display fromisoformat clk st =
     (case usage_data st of
        None \<Rightarrow> (None, st)
      | Some u \<Rightarrow>
          if \<not> truthy u then (None, st)
          else
            (case extract_fields u of
               Inl e \<Rightarrow> (Some e, st)
             | Inr (session_pct, session_reset, weekly_pct, weekly_reset,
                    sonnet_pct, sonnet_reset) \<Rightarrow>
            (case format_f0 session_pct of
               Inl e \<Rightarrow> (Some e, st)
             | Inr sp \<Rightarrow>
                 let st1 = st\<lparr>title := ''Claude: '' @ sp @ ''%''\<rparr>;
                     session_time = time_text fromisoformat (now_session clk) session_reset;
                     st2 = st1\<lparr>session_limit :=
                             ''Session: '' @ sp @ ''% (resets in '' @ session_time @ '')''\<rparr>;
                     weekly_time = time_text fromisoformat (now_weekly clk) weekly_reset
                 in
                 (case format_f0 weekly_pct of
                    Inl e \<Rightarrow> (Some e, st2)
                  | Inr wp \<Rightarrow>
                      let st3 = st2\<lparr>weekly_limit :=
                                  ''Weekly: '' @ wp @ ''% (resets in '' @ weekly_time @ '')''\<rparr>
                      in
                      if sonnet_pct \<noteq> PyNone then
                        let sonnet_time = time_text fromisoformat (now_sonnet clk) sonnet_reset
                        in
                        (case format_f0 sonnet_pct of
                           Inl e \<Rightarrow> (Some e, st3)
                         | Inr np \<Rightarrow>
                             (None, st3\<lparr>sonnet_limit :=
                                      ''Sonnet: '' @ np @ ''% (resets in '' @ sonnet_time @ '')''\<rparr>))
                      else (None, st3\<lparr>sonnet_limit := ''Sonnet: N/A''\<rparr>)))))"

text \<open>
  \<^verbatim>\<open>refresh\<close>, lines 120 to 135. \<^verbatim>\<open>if not data\<close> holds for \<^verbatim>\<open>None\<close> and for every falsy
  body.
\<close>

definition refresh ::
  "(claude_api \<Rightarrow> pyval option) \<Rightarrow> (string \<Rightarrow> py_datetime option) \<Rightarrow> clock \<Rightarrow> app
     \<Rightarrow> py_exception option \<times> app" where
  "refresh net fromisoformat clk st =
     (case api st of
        None \<Rightarrow>
          (None, st\<lparr>title := ''Claude: Setup'',
                    session_limit := ''Session: Not configured'',
                    weekly_limit := ''Weekly: Not configured'',
                    sonnet_limit := ''Sonnet: Not configured''\<rparr>)
      | Some a \<Rightarrow>
          (case get_usage net a st of
             (None, st1) \<Rightarrow> (None, st1\<lparr>title := ''Claude: Error''\<rparr>)
           | (Some data, st1) \<Rightarrow>
               if \<not> truthy data then (None, st1\<lparr>title := ''Claude: Error''\<rparr>)
               else update_display fromisoformat clk (st1\<lparr>usage_data := Some data\<rparr>)))"

text \<open>
  \<^verbatim>\<open>open_settings\<close>, lines 177 to 247. \<open>instructions\<close> is what \<^verbatim>\<open>rumps.alert\<close> returns
  (0 for the cancel button); a \<open>response\<close> is what \<^verbatim>\<open>rumps.Window.run\<close> returns
  (\<open>clicked\<close> is 0 for the cancel button).
\<close>

record response =
  clicked :: int
  response_text :: string

definition open_settings ::
  "(claude_api \<Rightarrow> pyval option) \<Rightarrow> (string \<Rightarrow> py_datetime option) \<Rightarrow> clock
     \<Rightarrow> int \<Rightarrow> response \<Rightarrow> response \<Rightarrow> app \<Rightarrow> py_exception option \<times> app" where
  "open_settings net fromisoformat clk instructions session_response org_response st =
     (let st0 = st\<lparr>alerts := alerts st @ [''Setup Instructions'']\<rparr>
      in
      if instructions = 0
      then (None, st0\<lparr>browser := browser st0 @ [''https://claude.ai/settings/usage'']\<rparr>)
      else
        let st1 = st0\<lparr>windows := windows st0 @ [''Session Key'']\<rparr>
        in
        if clicked session_response = 0 then (None, st1)
        else
          let skey = strip (response_text session_response);
              st2 = st1\<lparr>windows := windows st1 @ [''Organization ID'']\<rparr>
          in
          if clicked org_response = 0 then (None, st2)
          else
            let oid = strip (response_text org_response)
            in
            if skey \<noteq> [] \<and> oid \<noteq> [] then
              (case refresh net fromisoformat clk (save_credentials skey oid st2) of
                 (Some e, st3) \<Rightarrow> (Some e, st3)
               | (None, st3) \<Rightarrow> (None, st3\<lparr>alerts := alerts st3 @ [''Settings Saved'']\<rparr>))
            else (None, st2\<lparr>alerts := alerts st2 @ [''Error'']\<rparr>))"

subsection \<open>Reading decimal numbers back\<close>

text \<open>
  The digits \<^verbatim>\<open>str\<close> prints and the number a string of digits denotes; they say which
  numbers a printed countdown shows.
\<close>

definition is_digit :: "char \<Rightarrow> bool" where
  "is_digit c = (c \<in> set ''0123456789'')"

definition digit_val :: "char \<Rightarrow> nat" where
  "digit_val c = of_char c - 48"

definition digits_val :: "string \<Rightarrow> nat" where
  "digits_val cs = foldl (\<lambda>a c. 10 * a + digit_val c) 0 cs"

subsection \<open>Inputs the statements speak of\<close>

text \<open>
  \<open>unparseable\<close>: the value is not a string, or \<^verbatim>\<open>fromisoformat\<close> rejects the string that
  \<^verbatim>\<open>replace\<close> hands to it.
\<close>

definition unparseable :: "(string \<Rightarrow> py_datetime option) \<Rightarrow> pyval \<Rightarrow> bool" where
  "unparseable fromisoformat v =
     (case v of PyStr s \<Rightarrow> fromisoformat (replace_Z s) = None | _ \<Rightarrow> True)"

text \<open>
  A snapshot \<^verbatim>\<open>dict\<close> is \<open>extractable\<close> when lines 143 to 152 raise nothing on it: the
  values of \<^verbatim>\<open>five_hour\<close> and \<^verbatim>\<open>seven_day\<close>, where the keys are present, are \<^verbatim>\<open>dict\<close>s, and
  the value of \<^verbatim>\<open>seven_day_sonnet\<close>, where present, is a \<^verbatim>\<open>dict\<close> or falsy.
\<close>

definition record_or_absent :: "(string \<times> pyval) list \<Rightarrow> string \<Rightarrow> bool" where
  "record_or_absent data k =
     (case map_of data k of None \<Rightarrow> True | Some (PyDict w) \<Rightarrow> True | Some v \<Rightarrow> False)"

definition record_or_falsy :: "(string \<times> pyval) list \<Rightarrow> string \<Rightarrow> bool" where
  "record_or_falsy data k =
     (case map_of data k of
        None \<Rightarrow> True | Some (PyDict w) \<Rightarrow> True | Some v \<Rightarrow> \<not> truthy v)"

definition extractable :: "(string \<times> pyval) list \<Rightarrow> bool" where
  "extractable data =
     (record_or_absent data ''five_hour'' \<and> record_or_absent data ''seven_day''
      \<and> record_or_falsy data ''seven_day_sonnet'')"

text \<open>
  The record of a window (empty when the key is absent or its value is no \<^verbatim>\<open>dict\<close>), and
  its \<^verbatim>\<open>percent_used\<close> and \<^verbatim>\<open>resets_at\<close> with the defaults of the code.
\<close>

definition window :: "(string \<times> pyval) list \<Rightarrow> string \<Rightarrow> (string \<times> pyval) list" where
  "window data k = (case map_of data k of Some (PyDict w) \<Rightarrow> w | _ \<Rightarrow> [])"

definition percent_of :: "(string \<times> pyval) list \<Rightarrow> string \<Rightarrow> pyval" where
  "percent_of data k = dict_get (window data k) ''percent_used'' (PyInt 0)"

definition reset_of :: "(string \<times> pyval) list \<Rightarrow> string \<Rightarrow> pyval" where
  "reset_of data k = dict_get (window data k) ''resets_at'' (PyStr '''')"

subsection \<open>A concrete environment\<close>

text \<open>
  A parser that knows five timestamps, four aware ones and a naive one, and rejects every
  other string; the clock of the examples stands at 2030-01-01T00:00:00 UTC, which is
  1893456000 seconds after the epoch. The last microsecond of the year 9999 is
  253402300799999999 microseconds after the epoch.
\<close>

definition example_fromisoformat :: "string \<Rightarrow> py_datetime option" where
  "example_fromisoformat s =
     (if s = ''2030-01-01T00:00:00+00:00'' then Some (Aware 1893456000000000)
      else if s = ''2030-01-01T00:50:00+00:00'' then Some (Aware 1893459000000000)
      else if s = ''2030-01-01T02:05:00+00:00'' then Some (Aware 1893463500000000)
      else if s = ''9999-12-31T23:59:59.999999+00:00'' then Some (Aware 253402300799999999)
      else if s = ''2030-01-01T02:05:00'' then Some (Naive 1893463500000000)
      else None)"

text \<open>
  The application as \<^verbatim>\<open>__init__\<close> builds it, before the credentials are loaded and
  with an empty keyring; a clock that stands at 2030-01-01T00:00:00 UTC; the snapshot of
  the worked example (73.4 percent with 125 minutes left, 10 percent with 50 minutes
  left, no Sonnet window), where \<^verbatim>\<open>json\<close> reads the literal \<^verbatim>\<open>73.4\<close> as the double nearest
  to it; and the application after that snapshot has been fetched and rendered for a
  configured client.
\<close>

definition initial_app :: app where
  "initial_app =
     \<lparr>api = None, usage_data = None, title = ''Claude: --%'',
      session_limit = ''Session Limit'', weekly_limit = ''Weekly Limit'',
      sonnet_limit = ''Sonnet Limit'', keyring = Map.empty, set_password_calls = [],
      get_calls = [], alerts = [], windows = [], browser = []\<rparr>"

definition example_clock :: clock where
  "example_clock =
     \<lparr>now_session = 1893456000000000, now_weekly = 1893456000000000,
      now_sonnet = 1893456000000000\<rparr>"

definition example_snapshot :: "(string \<times> pyval) list" where
  "example_snapshot =
     [(''five_hour'', PyDict [(''percent_used'', PyFloat (Finite False (double_of_ratio 734 10))),
                              (''resets_at'', PyStr ''2030-01-01T02:05:00Z'')]),
      (''seven_day'', PyDict [(''percent_used'', PyInt 10),
                              (''resets_at'', PyStr ''2030-01-01T00:50:00Z'')])]"

definition rendered_app :: app where
  "rendered_app =
     initial_app\<lparr>api := Some \<lparr>session_key = ''sk-ant-sid01-abc'', org_id = ''org-1''\<rparr>,
                 usage_data := Some (PyDict example_snapshot),
                 title := ''Claude: 73%'',
                 session_limit := ''Session: 73% (resets in 2h 5m)'',
                 weekly_limit := ''Weekly: 10% (resets in 50m)'',
                 sonnet_limit := ''Sonnet: N/A'',
                 get_calls := [\<lparr>session_key = ''sk-ant-sid01-abc'', org_id = ''org-1''\<rparr>]\<rparr>"

section \<open>Rounding to a double\<close>

lemma round_half_even_near: "\<bar>real_of_int (round_half_even x) - x\<bar> \<le> 1 / 2"
  unfolding round_half_even_def Let_def by (auto; linarith)

lemma round_half_even_nonneg: "0 \<le> x \<Longrightarrow> 0 \<le> round_half_even x"
  unfolding round_half_even_def Let_def by (auto; linarith)

lemma round_half_even_of_int: "round_half_even (of_int i) = i"
  by (simp add: round_half_even_def)

lemma round_half_even_pos: "1 \<le> x \<Longrightarrow> 0 < round_half_even x"
  using round_half_even_near[of x] by linarith

lemma nearest_of_half:
  fixes n m :: int
  assumes "\<bar>real_of_int n - x\<bar> \<le> 1 / 2"
  shows "\<bar>real_of_int n - x\<bar> \<le> \<bar>real_of_int m - x\<bar>"
proof (cases "m = n")
  case True
  then show ?thesis by simp
next
  case False
  then have "1 \<le> \<bar>m - n\<bar>" by linarith
  then have "1 \<le> \<bar>real_of_int m - real_of_int n\<bar>"
    by (metis of_int_1_le_iff of_int_abs of_int_diff)
  with assms show ?thesis by linarith
qed

text \<open>Where the two searches for the scaling stop.\<close>

lemma shift_up_reaches: "0 < n \<Longrightarrow> D * 2 ^ 52 \<le> n * 2 ^ shift_up n D k"
proof (induction n D k rule: shift_up.induct)
  case (1 n D k)
  show ?case
  proof (cases "n * 2 ^ k < D * 2 ^ 52")
    case True
    with 1 show ?thesis
      by (simp add: shift_up.simps[of n D k])
  next
    case False
    then show ?thesis
      by (simp add: shift_up.simps[of n D k])
  qed
qed

lemma shift_down_reaches:
  "0 < D \<Longrightarrow> D * 2 ^ 53 * 2 ^ j \<le> 2 * n \<Longrightarrow> D * 2 ^ 53 * 2 ^ shift_down n D j \<le> 2 * n"
proof (induction n D j rule: shift_down.induct)
  case (1 n D j)
  show ?case
  proof (cases "D * 2 ^ 53 * 2 ^ j \<le> n")
    case True
    then have "D * 2 ^ 53 * 2 ^ Suc j \<le> 2 * n" by simp
    with 1 True show ?thesis
      by (simp add: shift_down.simps[of n D j])
  next
    case False
    with 1 show ?thesis
      by (simp add: shift_down.simps[of n D j])
  qed
qed

lemma ratio_ge_one:
  fixes a b :: nat
  assumes "b \<le> a" and "0 < b"
  shows "1 \<le> real a / real b"
  using assms by (simp add: pos_le_divide_eq)

lemma shift_up_ratio:
  assumes "0 < n" and "0 < D"
  shows "1 \<le> real (n * 2 ^ shift_up n D 0) / real D"
proof -
  have "D * 1 \<le> D * 2 ^ 52"
    by (rule mult_le_mono2) simp
  also have "D * 2 ^ 52 \<le> n * 2 ^ shift_up n D 0"
    using assms(1) by (rule shift_up_reaches)
  finally show ?thesis
    using assms(2) by (intro ratio_ge_one) simp_all
qed

lemma shift_down_ratio:
  assumes "D * 2 ^ 53 \<le> n" and "0 < D"
  shows "1 \<le> real n / real (D * 2 ^ shift_down n D 0)"
proof -
  define J where "J = D * 2 ^ shift_down n D 0"
  have "D * 2 ^ 53 * 2 ^ 0 \<le> 2 * n"
    using assms(1) by simp
  with assms(2) have "D * 2 ^ 53 * 2 ^ shift_down n D 0 \<le> 2 * n"
    by (rule shift_down_reaches)
  then have a: "J * 2 ^ 53 \<le> 2 * n"
    by (simp add: J_def mult_ac)
  have "J * 2 \<le> J * 2 ^ 53"
    by (rule mult_le_mono2) simp
  with a have "J \<le> n"
    by linarith
  moreover have "0 < J"
    using assms(2) by (simp add: J_def)
  ultimately show ?thesis
    unfolding J_def[symmetric] by (rule ratio_ge_one)
qed

text \<open>The double of a positive quotient is positive, that of zero is zero.\<close>

lemma double_of_ratio_0: "double_of_ratio 0 D = 0"
  by (simp add: double_of_ratio_def shift_up.simps[of 0] shift_down.simps[of 0 0]
      round_half_even_def)

lemma double_of_ratio_pos:
  assumes "0 < n" and "0 < D"
  shows "0 < double_of_ratio n D"
proof (cases "n < D * 2 ^ 53")
  case True
  have "0 < round_half_even (real (n * 2 ^ shift_up n D 0) / real D)"
    using assms by (intro round_half_even_pos shift_up_ratio)
  then show ?thesis
    using True by (simp add: double_of_ratio_def Let_def)
next
  case False
  then have "D * 2 ^ 53 \<le> n" by simp
  then have "0 < round_half_even (real n / real (D * 2 ^ shift_down n D 0))"
    using assms by (intro round_half_even_pos shift_down_ratio)
  then show ?thesis
    using False by (simp add: double_of_ratio_def Let_def)
qed

lemma double_of_ratio_nonneg: "0 < D \<Longrightarrow> 0 \<le> double_of_ratio n D"
  using double_of_ratio_pos[of n D] double_of_ratio_0[of D] by (cases "n = 0") simp_all

text \<open>An integer of at most 53 bits is its own double.\<close>

lemma double_of_ratio_int:
  assumes "n \<le> 2 ^ 53"
  shows "double_of_ratio n 1 = real n"
proof (cases "n < 2 ^ 53")
  case True
  have "round_half_even (real (n * 2 ^ shift_up n 1 0)) = int (n * 2 ^ shift_up n 1 0)"
    using round_half_even_of_int[of "int (n * 2 ^ shift_up n 1 0)"] by simp
  then show ?thesis
    using True by (simp add: double_of_ratio_def Let_def)
next
  case False
  with assms have n: "n = 9007199254740992" by simp
  have "double_of_ratio 9007199254740992 1 = 9007199254740992"
    by (simp add: double_of_ratio_def shift_down.simps round_half_even_def)
  then show ?thesis
    by (simp add: n)
qed

text \<open>
  Below \<open>2 ^ 34\<close> seconds the double of a number of microseconds has the whole seconds of
  the number itself: the double is within \<open>2 ^ -20\<close> of the quotient, and a quotient that
  is not whole is at least \<open>10 ^ -6\<close> away from the whole numbers.
\<close>

lemma floor_double_small:
  assumes "n < 2 ^ 34 * 1000000"
  shows "\<lfloor>double_of_ratio n 1000000\<rfloor> = int (n div 1000000)"
proof (cases "n = 0")
  case True
  then show ?thesis
    by (simp add: double_of_ratio_0)
next
  case False
  then have npos: "0 < n" by simp
  define k where "k = shift_up n 1000000 0"
  define x where "x = real n / 1000000"
  define m where "m = round_half_even (x * 2 ^ k)"
  define N where "N = n div 1000000"
  define r where "r = n mod 1000000"
  have n53: "n < 1000000 * 2 ^ 53"
    using assms by simp
  have v: "double_of_ratio n 1000000 = real_of_int m / 2 ^ k"
    using n53 by (simp add: double_of_ratio_def Let_def k_def m_def x_def)
  have "1000000 * 2 ^ 52 \<le> n * 2 ^ k"
    unfolding k_def using npos by (rule shift_up_reaches)
  also have "n * 2 ^ k < (2 ^ 34 * 1000000) * 2 ^ k"
    using assms by simp
  finally have "(2::nat) ^ 52 < 2 ^ 34 * 2 ^ k"
    by simp
  then have "(2::nat) ^ 52 < 2 ^ (34 + k)"
    by (simp add: power_add)
  then have "52 < 34 + k"
    by (simp only: power_strict_increasing_iff)
  then have k19: "20 \<le> Suc k"
    by simp
  have "(2::real) ^ 20 \<le> 2 ^ Suc k"
    using k19 by (intro power_increasing) simp_all
  then have big: "(1048576::real) \<le> 2 * 2 ^ k"
    by simp
  have "\<bar>real_of_int m - x * 2 ^ k\<bar> \<le> 1 / 2"
    unfolding m_def by (rule round_half_even_near)
  then have "\<bar>real_of_int m - x * 2 ^ k\<bar> / 2 ^ k \<le> (1 / 2) / 2 ^ k"
    by (intro divide_right_mono) simp_all
  moreover have "real_of_int m / 2 ^ k - x = (real_of_int m - x * 2 ^ k) / 2 ^ k"
    by (simp add: diff_divide_distrib)
  then have "\<bar>real_of_int m / 2 ^ k - x\<bar> = \<bar>real_of_int m - x * 2 ^ k\<bar> / 2 ^ k"
    by (simp add: abs_divide)
  ultimately have e1: "\<bar>real_of_int m / 2 ^ k - x\<bar> \<le> 1 / (2 * 2 ^ k)"
    by simp
  have "1 / (2 * (2::real) ^ k) \<le> 1 / 1048576"
    using big by (intro divide_left_mono) simp_all
  with e1 have err: "\<bar>real_of_int m / 2 ^ k - x\<bar> \<le> 1 / 1048576"
    by linarith
  have n_eq: "n = N * 1000000 + r" and r_lt: "r < 1000000"
    by (simp_all add: N_def r_def)
  have x_eq: "x = real N + real r / 1000000"
    by (simp add: x_def n_eq add_divide_distrib)
  show ?thesis
  proof (cases "r = 0")
    case True
    then have "x * 2 ^ k = real_of_int (int (N * 2 ^ k))"
      by (simp add: x_eq)
    then have "m = int (N * 2 ^ k)"
      unfolding m_def by (simp only: round_half_even_of_int)
    then have "real_of_int m / 2 ^ k = real N"
      by simp
    then show ?thesis
      by (simp add: v N_def)
  next
    case False
    then have "1 \<le> r" and "r \<le> 999999"
      using r_lt by simp_all
    then have "1 \<le> real r" and "real r \<le> 999999"
      by simp_all
    then have "real N + 1 / 1000000 \<le> x" and "x \<le> real N + 999999 / 1000000"
      by (simp_all add: x_eq divide_right_mono)
    with err have "real N \<le> real_of_int m / 2 ^ k" and "real_of_int m / 2 ^ k < real N + 1"
      by linarith+
    then have "\<lfloor>real_of_int m / 2 ^ k\<rfloor> = int N"
      by (intro floor_unique) simp_all
    then show ?thesis
      by (simp add: v N_def)
  qed
qed

section \<open>The countdown\<close>

subsection \<open>Arithmetic of the difference\<close>

lemma total_seconds_le_0: "total_seconds d \<le> 0 \<longleftrightarrow> d \<le> 0"
proof (cases "0 < d")
  case True
  then have "0 < double_of_ratio (nat d) 1000000"
    by (intro double_of_ratio_pos) simp_all
  with True show ?thesis
    by (simp add: total_seconds_def)
next
  case False
  have "0 \<le> double_of_ratio (nat (- d)) 1000000"
    by (rule double_of_ratio_nonneg) simp
  with False show ?thesis
    by (auto simp: total_seconds_def double_of_ratio_0)
qed

lemma py_int_total_seconds_nonneg: "0 < d \<Longrightarrow> 0 \<le> py_int (total_seconds d)"
  using double_of_ratio_nonneg[of 1000000 "nat d"]
  by (simp add: py_int_def total_seconds_def)

lemma py_int_total_seconds:
  assumes "0 < d" and "d < 2 ^ 34 * 1000000"
  shows "py_int (total_seconds d) = d div 1000000"
proof -
  have "nat d < 2 ^ 34 * 1000000"
    using assms by simp
  then have "\<lfloor>double_of_ratio (nat d) 1000000\<rfloor> = int (nat d div 1000000)"
    by (rule floor_double_small)
  moreover have "int (nat d div 1000000) = d div 1000000"
    using assms(1) by (simp add: zdiv_int)
  moreover have "0 \<le> double_of_ratio (nat d) 1000000"
    by (rule double_of_ratio_nonneg) simp
  ultimately show ?thesis
    using assms(1) by (simp add: py_int_def total_seconds_def)
qed

lemma str_int_nonneg: "0 \<le> i \<Longrightarrow> str_int i = str_nat (nat i)"
  by (simp add: str_int_def)

lemma hours_of_microseconds: "(d::int) div 1000000 div 3600 = d div 3600000000"
  by (simp add: div_mult2_eq[symmetric])

lemma mod_3600_div_60: "(s::int) mod 3600 div 60 = s div 60 mod 60"
proof -
  have "s mod 3600 = 60 * (s div 60 mod 60) + s mod 60"
    using zmod_zmult2_eq[of 60 s 60] by simp
  then show ?thesis by simp
qed

lemma minutes_of_microseconds:
  "(d::int) div 1000000 mod 3600 div 60 = d div 60000000 mod 60"
proof -
  have "d div 60000000 = d div 1000000 div 60"
    using zdiv_zmult2_eq[of 60 d 1000000] by simp
  then show ?thesis by (simp add: mod_3600_div_60)
qed

lemma nat_mod_60: "nat ((d::int) mod 60) \<le> 59"
  using pos_mod_bound[of 60 d] by simp

text \<open>
  What \<^verbatim>\<open>format_time_until\<close> returns for a string that parses to an aware time, in terms
  of the whole seconds \<^verbatim>\<open>int(diff.total_seconds())\<close>.
\<close>

lemma format_time_until_aware:
  assumes "fromisoformat (replace_Z s) = Some (Aware t)"
  shows "format_time_until fromisoformat now (PyStr s) =
           (if t \<le> now then ''now''
            else if 0 < py_int (total_seconds (t - now)) div 3600
                 then str_nat (nat (py_int (total_seconds (t - now)) div 3600)) @ ''h '' @
                      str_nat (nat (py_int (total_seconds (t - now)) div 60 mod 60)) @ ''m''
                 else str_nat (nat (py_int (total_seconds (t - now)) div 60 mod 60)) @ ''m'')"
proof (cases "t \<le> now")
  case True
  then show ?thesis
    using assms by (simp add: format_time_until_def format_time_until_try_def total_seconds_le_0)
next
  case False
  define secs where "secs = py_int (total_seconds (t - now))"
  have pos: "0 < t - now" and dpos: "\<not> t - now \<le> 0"
    using False by simp_all
  have s0: "0 \<le> secs"
    unfolding secs_def using pos by (rule py_int_total_seconds_nonneg)
  have m: "str_int (secs mod 3600 div 60) = str_nat (nat (secs div 60 mod 60))"
    by (simp add: mod_3600_div_60 str_int_nonneg)
  have h: "str_int (secs div 3600) = str_nat (nat (secs div 3600))"
    using s0 by (simp add: str_int_nonneg pos_imp_zdiv_nonneg_iff)
  have step: "format_time_until fromisoformat now (PyStr s) =
          (if 0 < secs div 3600
           then str_int (secs div 3600) @ ''h '' @ str_int (secs mod 3600 div 60) @ ''m''
           else str_int (secs mod 3600 div 60) @ ''m'')"
    using assms dpos
    by (simp add: format_time_until_def format_time_until_try_def total_seconds_le_0 Let_def
        secs_def[symmetric])
  have "format_time_until fromisoformat now (PyStr s) =
          (if 0 < secs div 3600
           then str_nat (nat (secs div 3600)) @ ''h '' @ str_nat (nat (secs div 60 mod 60)) @ ''m''
           else str_nat (nat (secs div 60 mod 60)) @ ''m'')"
    using step unfolding m h .
  then show ?thesis
    using False by (simp only: secs_def if_False)
qed

lemma format_time_until_naive:
  assumes "fromisoformat (replace_Z s) = Some (Naive t)"
  shows "format_time_until fromisoformat now (PyStr s) = ''?''"
  using assms by (simp add: format_time_until_def format_time_until_try_def)

lemma format_time_until_unparseable:
  assumes "unparseable fromisoformat v"
  shows "format_time_until fromisoformat now v = ''?''"
  using assms
  by (cases v) (simp_all add: unparseable_def format_time_until_def format_time_until_try_def)

text \<open>The shape of the countdown for a reset time after now.\<close>

lemma format_time_until_shape:
  assumes "fromisoformat (replace_Z s) = Some (Aware t)" and "now < t"
  shows "\<exists>H M. M \<le> 59 \<and> format_time_until fromisoformat now (PyStr s) =
           (if H = 0 then str_nat M @ ''m'' else str_nat H @ ''h '' @ str_nat M @ ''m'')"
proof -
  define secs where "secs = py_int (total_seconds (t - now))"
  define H0 where "H0 = nat (secs div 3600)"
  define M0 where "M0 = nat (secs div 60 mod 60)"
  have M0: "M0 \<le> 59"
    by (simp add: M0_def nat_mod_60)
  have H0: "0 < secs div 3600 \<longleftrightarrow> H0 \<noteq> 0"
    unfolding H0_def by linarith
  have "format_time_until fromisoformat now (PyStr s) =
          (if H0 = 0 then str_nat M0 @ ''m'' else str_nat H0 @ ''h '' @ str_nat M0 @ ''m'')"
    using assms
    by (simp add: format_time_until_aware secs_def[symmetric] H0 H0_def[symmetric]
        M0_def[symmetric])
  with M0 show ?thesis by blast
qed

subsection \<open>Decimal numbers are read back uniquely\<close>

lemma below_10: "(d::nat) < 10 \<Longrightarrow> d \<in> {0, 1, 2, 3, 4, 5, 6, 7, 8, 9}"
  by auto

lemma digit_char_val: "d < 10 \<Longrightarrow> digit_val (digit_char d) = d"
  by (drule below_10) (auto simp: digit_val_def digit_char_def)

lemma digit_char_is_digit: "d < 10 \<Longrightarrow> is_digit (digit_char d)"
  by (drule below_10) (auto simp: is_digit_def digit_char_def)

lemma str_nat_digits: "c \<in> set (str_nat n) \<Longrightarrow> is_digit c"
proof (induction n rule: str_nat.induct)
  case (1 n)
  show ?case
  proof (cases "n < 10")
    case True
    with "1.prems" show ?thesis
      by (simp add: str_nat.simps[of n] digit_char_is_digit)
  next
    case False
    with "1.prems" "1.IH" show ?thesis
      by (auto simp: str_nat.simps[of n] digit_char_is_digit)
  qed
qed

lemma digits_val_snoc: "digits_val (cs @ [c]) = 10 * digits_val cs + digit_val c"
  by (simp add: digits_val_def)

lemma digits_val_str_nat: "digits_val (str_nat n) = n"
proof (induction n rule: str_nat.induct)
  case (1 n)
  show ?case
  proof (cases "n < 10")
    case True
    then show ?thesis
      by (simp add: str_nat.simps[of n] digits_val_def digit_char_val)
  next
    case False
    with "1.IH" show ?thesis
      by (simp add: str_nat.simps[of n] digits_val_snoc digit_char_val)
  qed
qed

lemma str_nat_inj: "str_nat a = str_nat b \<Longrightarrow> a = b"
  by (metis digits_val_str_nat)

lemma digits_then_letter:
  assumes "\<forall>c \<in> set ds. is_digit c" and "\<not> is_digit x"
  shows "takeWhile is_digit (ds @ x # r) = ds" and "dropWhile is_digit (ds @ x # r) = x # r"
  using assms by (simp_all add: takeWhile_append2 dropWhile_append2)

lemma not_digit_h: "\<not> is_digit CHR ''h''"
  by (simp add: is_digit_def)

lemma not_digit_m: "\<not> is_digit CHR ''m''"
  by (simp add: is_digit_def)

lemma split_number:
  assumes "str_nat a @ x # r = str_nat b @ y # r'" and "\<not> is_digit x" and "\<not> is_digit y"
  shows "a = b \<and> x = y \<and> r = r'"
proof -
  have da: "\<forall>c \<in> set (str_nat a). is_digit c" and db: "\<forall>c \<in> set (str_nat b). is_digit c"
    by (auto dest: str_nat_digits)
  have "takeWhile is_digit (str_nat a @ x # r) = takeWhile is_digit (str_nat b @ y # r')"
    and "dropWhile is_digit (str_nat a @ x # r) = dropWhile is_digit (str_nat b @ y # r')"
    using assms(1) by simp_all
  then have "str_nat a = str_nat b" and "x # r = y # r'"
    using digits_then_letter[OF da assms(2)] digits_then_letter[OF db assms(3)] by simp_all
  then show ?thesis by (simp add: str_nat_inj)
qed

subsection \<open>Values of the concrete environment\<close>

lemma example_parse_0000:
  "example_fromisoformat (replace_Z ''2030-01-01T00:00:00Z'') = Some (Aware 1893456000000000)"
  by (simp add: example_fromisoformat_def)

lemma example_parse_0050:
  "example_fromisoformat (replace_Z ''2030-01-01T00:50:00Z'') = Some (Aware 1893459000000000)"
  by (simp add: example_fromisoformat_def)

lemma example_parse_0205:
  "example_fromisoformat (replace_Z ''2030-01-01T02:05:00Z'') = Some (Aware 1893463500000000)"
  by (simp add: example_fromisoformat_def)

lemma example_parse_9999:
  "example_fromisoformat (replace_Z ''9999-12-31T23:59:59.999999Z'')
     = Some (Aware 253402300799999999)"
  by (simp add: example_fromisoformat_def)

lemma str_nat_0: "str_nat 0 = ''0''"
  by (simp add: str_nat.simps digit_char_def)

lemma str_nat_2: "str_nat 2 = ''2''"
  by (simp add: str_nat.simps digit_char_def)

lemma str_nat_5: "str_nat 5 = ''5''"
  by (simp add: str_nat.simps digit_char_def)

lemma str_nat_50: "str_nat 50 = ''50''"
  by (simp add: str_nat.simps digit_char_def)

lemma str_nat_69863568: "str_nat 69863568 = ''69863568''"
  by (simp add: str_nat.simps digit_char_def)

lemma example_secs_0205: "py_int (total_seconds 7500000000) = 7500"
  using py_int_total_seconds[of 7500000000] by simp

lemma example_secs_0050: "py_int (total_seconds 3000000000) = 3000"
  using py_int_total_seconds[of 3000000000] by simp

text \<open>
  From 2030-01-01T00:00:00 UTC to the last microsecond of the year 9999 there are
  251508844799999999 microseconds; the nearest double of the seconds is 251508844800.
\<close>

lemma example_secs_9999: "py_int (total_seconds 251508844799999999) = 251508844800"
  by (simp add: total_seconds_def double_of_ratio_def shift_up.simps round_half_even_def
      py_int_def)

lemma example_countdown_0205:
  "time_text example_fromisoformat 1893456000000000 (PyStr ''2030-01-01T02:05:00Z'') = ''2h 5m''"
  using example_parse_0205
  by (simp add: time_text_def format_time_until_aware example_secs_0205 str_nat_2 str_nat_5)

lemma example_countdown_0050:
  "time_text example_fromisoformat 1893456000000000 (PyStr ''2030-01-01T00:50:00Z'') = ''50m''"
  using example_parse_0050
  by (simp add: time_text_def format_time_until_aware example_secs_0050 str_nat_50)

subsection \<open>The claims about the countdown\<close>

text \<open>
  C3. A reset time that parses to an absolute (aware) time at or before the current time
  gives the countdown \<^verbatim>\<open>now\<close>.
\<close>

theorem countdown_now:
  assumes "fromisoformat (replace_Z s) = Some (Aware t)" and "t \<le> now"
  shows "format_time_until fromisoformat now (PyStr s) = ''now''"
  using assms by (simp add: format_time_until_aware)

theorem countdown_now_witness:
  "example_fromisoformat (replace_Z ''2030-01-01T00:00:00Z'') = Some (Aware 1893456000000000)
   \<and> (1893456000000000::int) \<le> 1893456000000000
   \<and> format_time_until example_fromisoformat 1893456000000000 (PyStr ''2030-01-01T00:00:00Z'')
       = ''now''"
proof -
  have le: "(1893456000000000::int) \<le> 1893456000000000" by simp
  note r = countdown_now[where fromisoformat = example_fromisoformat
             and s = "''2030-01-01T00:00:00Z''", OF example_parse_0000 le]
  from example_parse_0000 le r show ?thesis
    by (intro conjI)
qed

text \<open>
  C4, as the code has it. A reset time that parses to an absolute time strictly after the
  current time, and less than \<open>2 ^ 34\<close> seconds (17179869184000000 microseconds, about 544
  years) after it, gives \<^verbatim>\<open><H>h <M>m\<close> when the difference is at least 60 minutes
  (3600000000 microseconds) and \<^verbatim>\<open><M>m\<close> otherwise, where \<open>H\<close> is the number of whole hours
  in the difference and \<open>M\<close> the number of whole minutes that remain.
\<close>

theorem countdown_hours_minutes:
  assumes "fromisoformat (replace_Z s) = Some (Aware t)" and "now < t"
    and "t - now < 2 ^ 34 * 1000000"
  shows "format_time_until fromisoformat now (PyStr s) =
           (if 3600000000 \<le> t - now
            then str_nat (nat ((t - now) div 3600000000)) @ ''h '' @
                 str_nat (nat ((t - now) div 60000000 mod 60)) @ ''m''
            else str_nat (nat ((t - now) div 60000000 mod 60)) @ ''m'')"
proof -
  have pos: "0 < t - now"
    using assms(2) by simp
  have secs: "py_int (total_seconds (t - now)) = (t - now) div 1000000"
    using pos assms(3) by (rule py_int_total_seconds)
  have h: "(t - now) div 1000000 div 3600 = (t - now) div 3600000000"
    by (rule hours_of_microseconds)
  have m: "(t - now) div 1000000 div 60 = (t - now) div 60000000"
    using zdiv_zmult2_eq[of 60 "t - now" 1000000] by simp
  have c: "0 < (t - now) div 3600000000 \<longleftrightarrow> 3600000000 \<le> t - now"
    by (simp add: pos_imp_zdiv_pos_iff)
  have "format_time_until fromisoformat now (PyStr s) =
          (if 0 < (t - now) div 3600000000
           then str_nat (nat ((t - now) div 3600000000)) @ ''h '' @
                str_nat (nat ((t - now) div 60000000 mod 60)) @ ''m''
           else str_nat (nat ((t - now) div 60000000 mod 60)) @ ''m'')"
    using assms(1,2) format_time_until_aware[of fromisoformat s t now]
    unfolding secs h m by simp
  then show ?thesis
    unfolding c .
qed

theorem countdown_hours_minutes_witness:
  "example_fromisoformat (replace_Z ''2030-01-01T02:05:00Z'') = Some (Aware 1893463500000000)
   \<and> (1893456000000000::int) < 1893463500000000
   \<and> (1893463500000000::int) - 1893456000000000 < 2 ^ 34 * 1000000
   \<and> format_time_until example_fromisoformat 1893456000000000 (PyStr ''2030-01-01T02:05:00Z'')
       = ''2h 5m''
   \<and> example_fromisoformat (replace_Z ''2030-01-01T00:50:00Z'') = Some (Aware 1893459000000000)
   \<and> (1893456000000000::int) < 1893459000000000
   \<and> (1893459000000000::int) - 1893456000000000 < 2 ^ 34 * 1000000
   \<and> format_time_until example_fromisoformat 1893456000000000 (PyStr ''2030-01-01T00:50:00Z'')
       = ''50m''"
proof -
  have lt1: "(1893456000000000::int) < 1893463500000000"
    and lt2: "(1893456000000000::int) < 1893459000000000" by simp_all
  have b1: "(1893463500000000::int) - 1893456000000000 < 2 ^ 34 * 1000000"
    and b2: "(1893459000000000::int) - 1893456000000000 < 2 ^ 34 * 1000000" by simp_all
  have r1: "format_time_until example_fromisoformat 1893456000000000
              (PyStr ''2030-01-01T02:05:00Z'') = ''2h 5m''"
    using countdown_hours_minutes[where fromisoformat = example_fromisoformat
            and s = "''2030-01-01T02:05:00Z''", OF example_parse_0205 lt1 b1]
    by (simp add: str_nat_2 str_nat_5)
  have r2: "format_time_until example_fromisoformat 1893456000000000
              (PyStr ''2030-01-01T00:50:00Z'') = ''50m''"
    using countdown_hours_minutes[where fromisoformat = example_fromisoformat
            and s = "''2030-01-01T00:50:00Z''", OF example_parse_0050 lt2 b2]
    by (simp add: str_nat_50)
  from example_parse_0205 lt1 b1 r1 example_parse_0050 lt2 b2 r2 show ?thesis
    by (intro conjI)
qed

text \<open>
  The claim C4 as it is written fails far in the future: for the reset time
  9999-12-31T23:59:59.999999Z and the clock at 2030-01-01T00:00:00 UTC, the difference
  has 69863567 whole hours and 59 remaining whole minutes, and the countdown printed is
  \<^verbatim>\<open>69863568h 0m\<close>.
\<close>

theorem far_reset_counterexample:
  "example_fromisoformat (replace_Z ''9999-12-31T23:59:59.999999Z'')
     = Some (Aware 253402300799999999)
   \<and> (1893456000000000::int) < 253402300799999999
   \<and> ((253402300799999999::int) - 1893456000000000) div 3600000000 = 69863567
   \<and> ((253402300799999999::int) - 1893456000000000) div 60000000 mod 60 = 59
   \<and> format_time_until example_fromisoformat 1893456000000000
         (PyStr ''9999-12-31T23:59:59.999999Z'') = ''69863568h 0m''
   \<and> format_time_until example_fromisoformat 1893456000000000
         (PyStr ''9999-12-31T23:59:59.999999Z'') \<noteq> ''69863567h 59m''"
proof -
  have out: "format_time_until example_fromisoformat 1893456000000000
               (PyStr ''9999-12-31T23:59:59.999999Z'') = ''69863568h 0m''"
    using example_parse_9999
      format_time_until_aware[of example_fromisoformat "''9999-12-31T23:59:59.999999Z''"
        253402300799999999 1893456000000000]
    by (simp add: example_secs_9999 str_nat_69863568 str_nat_0)
  then have "format_time_until example_fromisoformat 1893456000000000
               (PyStr ''9999-12-31T23:59:59.999999Z'') \<noteq> ''69863567h 59m''"
    by simp
  with out example_parse_9999 show ?thesis
    by simp
qed

text \<open>
  C10. For a reset time that parses to an absolute time strictly after the current time,
  the countdown is \<^verbatim>\<open><M>m\<close> or \<^verbatim>\<open><H>h <M>m\<close> with \<open>M \<le> 59\<close>, the second form only with
  \<open>H \<ge> 1\<close>; and whichever numbers \<open>H\<close> and \<open>M\<close> the output is read with, they satisfy
  these bounds.
\<close>

theorem countdown_bounds:
  assumes "fromisoformat (replace_Z s) = Some (Aware t)" and "now < t"
  shows "(\<exists>H M. M \<le> 59 \<and>
            format_time_until fromisoformat now (PyStr s) =
              (if H = 0 then str_nat M @ ''m'' else str_nat H @ ''h '' @ str_nat M @ ''m''))
       \<and> (\<forall>M. format_time_until fromisoformat now (PyStr s) = str_nat M @ ''m'' \<longrightarrow> M \<le> 59)
       \<and> (\<forall>H M. format_time_until fromisoformat now (PyStr s)
                    = str_nat H @ ''h '' @ str_nat M @ ''m''
                 \<longrightarrow> 1 \<le> H \<and> M \<le> 59)"
proof -
  obtain H0 M0 where M0: "M0 \<le> 59"
    and out: "format_time_until fromisoformat now (PyStr s) =
               (if H0 = 0 then str_nat M0 @ ''m'' else str_nat H0 @ ''h '' @ str_nat M0 @ ''m'')"
    using format_time_until_shape[of fromisoformat s t now] assms by blast
  have a: "\<exists>H M. M \<le> 59 \<and>
            format_time_until fromisoformat now (PyStr s) =
              (if H = 0 then str_nat M @ ''m'' else str_nat H @ ''h '' @ str_nat M @ ''m'')"
    using out M0 by blast
  have b: "M \<le> 59"
    if eq: "format_time_until fromisoformat now (PyStr s) = str_nat M @ ''m''" for M
  proof (cases "H0 = 0")
    case True
    with out eq have "str_nat M0 @ CHR ''m'' # [] = str_nat M @ CHR ''m'' # []"
      by simp
    then have "M0 = M"
      using split_number not_digit_m by blast
    with M0 show ?thesis by simp
  next
    case False
    with out eq
    have "str_nat H0 @ CHR ''h'' # ('' '' @ str_nat M0 @ ''m'') = str_nat M @ CHR ''m'' # []"
      by simp
    then have "CHR ''h'' = CHR ''m''"
      using split_number not_digit_m not_digit_h by blast
    then show ?thesis by simp
  qed
  have c: "1 \<le> H \<and> M \<le> 59"
    if eq: "format_time_until fromisoformat now (PyStr s)
              = str_nat H @ ''h '' @ str_nat M @ ''m''" for H M
  proof (cases "H0 = 0")
    case True
    with out eq
    have "str_nat M0 @ CHR ''m'' # [] = str_nat H @ CHR ''h'' # ('' '' @ str_nat M @ ''m'')"
      by simp
    then have "CHR ''m'' = CHR ''h''"
      using split_number not_digit_m not_digit_h by blast
    then show ?thesis by simp
  next
    case False
    with out eq
    have "str_nat H0 @ CHR ''h'' # ('' '' @ str_nat M0 @ ''m'')
            = str_nat H @ CHR ''h'' # ('' '' @ str_nat M @ ''m'')"
      by simp
    then have "H0 = H \<and> '' '' @ str_nat M0 @ ''m'' = '' '' @ str_nat M @ ''m''"
      using split_number not_digit_h by blast
    then have "H0 = H" and "str_nat M0 @ CHR ''m'' # [] = str_nat M @ CHR ''m'' # []"
      by simp_all
    then have "H0 = H" and "M0 = M"
      using split_number not_digit_m by blast+
    with False M0 show ?thesis by simp
  qed
  from a b c show ?thesis by blast
qed

theorem countdown_bounds_witness:
  "example_fromisoformat (replace_Z ''2030-01-01T02:05:00Z'') = Some (Aware 1893463500000000)
   \<and> (1893456000000000::int) < 1893463500000000
   \<and> format_time_until example_fromisoformat 1893456000000000 (PyStr ''2030-01-01T02:05:00Z'')
       = str_nat 2 @ ''h '' @ str_nat 5 @ ''m''
   \<and> (1::nat) \<le> 2 \<and> (5::nat) \<le> 59
   \<and> example_fromisoformat (replace_Z ''2030-01-01T00:50:00Z'') = Some (Aware 1893459000000000)
   \<and> (1893456000000000::int) < 1893459000000000
   \<and> format_time_until example_fromisoformat 1893456000000000 (PyStr ''2030-01-01T00:50:00Z'')
       = str_nat 50 @ ''m''
   \<and> (50::nat) \<le> 59"
proof -
  have lt1: "(1893456000000000::int) < 1893463500000000"
    and lt2: "(1893456000000000::int) < 1893459000000000" by simp_all
  have r1: "format_time_until example_fromisoformat 1893456000000000
              (PyStr ''2030-01-01T02:05:00Z'') = str_nat 2 @ ''h '' @ str_nat 5 @ ''m''"
    using example_parse_0205 lt1
    by (simp add: format_time_until_aware example_secs_0205)
  have r2: "format_time_until example_fromisoformat 1893456000000000
              (PyStr ''2030-01-01T00:50:00Z'') = str_nat 50 @ ''m''"
    using example_parse_0050 lt2
    by (simp add: format_time_until_aware example_secs_0050)
  have h: "(1::nat) \<le> 2 \<and> (5::nat) \<le> 59"
    using countdown_bounds[where fromisoformat = example_fromisoformat
            and s = "''2030-01-01T02:05:00Z''", OF example_parse_0205 lt1] r1
    by blast
  have m: "(50::nat) \<le> 59"
    using countdown_bounds[where fromisoformat = example_fromisoformat
            and s = "''2030-01-01T00:50:00Z''", OF example_parse_0050 lt2] r2
    by blast
  from example_parse_0205 lt1 r1 h example_parse_0050 lt2 r2 m show ?thesis
    by (intro conjI) blast+
qed

text \<open>
  C2. The countdown is defined for every input: it returns \<^verbatim>\<open>?\<close>, \<^verbatim>\<open>now\<close>, \<^verbatim>\<open><M>m\<close> or
  \<^verbatim>\<open><H>h <M>m\<close>, and no exception of the \<^verbatim>\<open>try\<close> block leaves it. For an input that is not
  a string, or is a string that \<^verbatim>\<open>fromisoformat\<close> rejects, it returns \<^verbatim>\<open>?\<close>; so does the
  caller's guard for a missing (falsy) value.
\<close>

theorem countdown_total:
  "(unparseable fromisoformat reset_time \<longrightarrow>
      format_time_until fromisoformat now reset_time = ''?''
      \<and> time_text fromisoformat now reset_time = ''?'')
   \<and> (\<not> truthy reset_time \<longrightarrow> time_text fromisoformat now reset_time = ''?'')
   \<and> (format_time_until_try fromisoformat now reset_time
          = Inr (format_time_until fromisoformat now reset_time)
        \<or> (\<exists>e. format_time_until_try fromisoformat now reset_time = Inl e)
            \<and> format_time_until fromisoformat now reset_time = ''?'')
   \<and> (format_time_until fromisoformat now reset_time = ''?''
        \<or> format_time_until fromisoformat now reset_time = ''now''
        \<or> (\<exists>H M. M \<le> 59 \<and> format_time_until fromisoformat now reset_time =
              (if H = 0 then str_nat M @ ''m'' else str_nat H @ ''h '' @ str_nat M @ ''m'')))"
proof (intro conjI impI)
  assume u: "unparseable fromisoformat reset_time"
  then show "format_time_until fromisoformat now reset_time = ''?''"
    by (rule format_time_until_unparseable)
  with u show "time_text fromisoformat now reset_time = ''?''"
    by (simp add: time_text_def)
next
  assume "\<not> truthy reset_time"
  then show "time_text fromisoformat now reset_time = ''?''"
    by (simp add: time_text_def)
next
  show "format_time_until_try fromisoformat now reset_time
          = Inr (format_time_until fromisoformat now reset_time)
        \<or> (\<exists>e. format_time_until_try fromisoformat now reset_time = Inl e)
            \<and> format_time_until fromisoformat now reset_time = ''?''"
    by (cases "format_time_until_try fromisoformat now reset_time")
       (simp_all add: format_time_until_def)
next
  show "format_time_until fromisoformat now reset_time = ''?''
        \<or> format_time_until fromisoformat now reset_time = ''now''
        \<or> (\<exists>H M. M \<le> 59 \<and> format_time_until fromisoformat now reset_time =
              (if H = 0 then str_nat M @ ''m'' else str_nat H @ ''h '' @ str_nat M @ ''m''))"
  proof (cases "unparseable fromisoformat reset_time")
    case True
    then show ?thesis
      by (simp add: format_time_until_unparseable)
  next
    case False
    then obtain s dt where v: "reset_time = PyStr s" and p: "fromisoformat (replace_Z s) = Some dt"
      by (auto simp: unparseable_def split: pyval.splits)
    show ?thesis
    proof (cases dt)
      case (Naive t)
      with v p show ?thesis
        by (simp add: format_time_until_naive)
    next
      case (Aware t)
      show ?thesis
      proof (cases "t \<le> now")
        case True
        with v p Aware show ?thesis
          by (simp add: format_time_until_aware)
      next
        case False
        then have "now < t" by simp
        with v p Aware show ?thesis
          using format_time_until_shape[of fromisoformat s t now] by simp
      qed
    qed
  qed
qed

theorem countdown_total_witness:
  "unparseable example_fromisoformat (PyStr ''tomorrow'')
   \<and> format_time_until example_fromisoformat 0 (PyStr ''tomorrow'') = ''?''
   \<and> time_text example_fromisoformat 0 (PyStr ''tomorrow'') = ''?''
   \<and> unparseable example_fromisoformat (PyInt 5)
   \<and> format_time_until example_fromisoformat 0 (PyInt 5) = ''?''
   \<and> \<not> truthy (PyStr '''')
   \<and> time_text example_fromisoformat 0 (PyStr '''') = ''?''
   \<and> \<not> truthy PyNone
   \<and> time_text example_fromisoformat 0 PyNone = ''?''"
proof -
  have u1: "unparseable example_fromisoformat (PyStr ''tomorrow'')"
    by (simp add: unparseable_def example_fromisoformat_def)
  have u2: "unparseable example_fromisoformat (PyInt 5)"
    by (simp add: unparseable_def)
  have f1: "\<not> truthy (PyStr '''')" and f2: "\<not> truthy PyNone"
    by simp_all
  note t1 = countdown_total[of example_fromisoformat "PyStr ''tomorrow''" 0]
  note t2 = countdown_total[of example_fromisoformat "PyInt 5" 0]
  note t3 = countdown_total[of example_fromisoformat "PyStr ''''" 0]
  note t4 = countdown_total[of example_fromisoformat PyNone 0]
  from u1 u2 f1 f2 t1 t2 t3 t4 show ?thesis
    by blast
qed

section \<open>The display\<close>

subsection \<open>Formatting a percentage\<close>

text \<open>An \<^verbatim>\<open>int\<close> of magnitude at most \<open>2 ^ 53\<close> is printed as it is.\<close>

lemma float_of_int_small:
  assumes "\<bar>i\<bar> \<le> 2 ^ 53"
  shows "float_of_int i = Inr (Finite (i < 0) (real_of_int \<bar>i\<bar>))"
proof -
  have "nat \<bar>i\<bar> \<le> 2 ^ 53"
    using assms by (simp add: nat_le_iff)
  then have d: "double_of_ratio (nat \<bar>i\<bar>) 1 = real (nat \<bar>i\<bar>)"
    by (rule double_of_ratio_int)
  have "real_of_int \<bar>i\<bar> \<le> 2 ^ 53"
    using assms by (metis of_int_le_iff of_int_numeral of_int_power)
  also have "(2::real) ^ 53 < 2 ^ 1024"
    by (rule power_strict_increasing) simp_all
  finally have "\<not> (2::real) ^ 1024 \<le> real_of_int \<bar>i\<bar>"
    by simp
  then show ?thesis
    unfolding float_of_int_def d Let_def by simp
qed

lemma format_f0_int:
  assumes "\<bar>i\<bar> \<le> 2 ^ 53"
  shows "format_f0 (PyInt i) = Inr (str_int i)"
proof -
  have "round_half_even \<bar>real_of_int \<bar>i\<bar>\<bar> = \<bar>i\<bar>"
    using round_half_even_of_int[of "\<bar>i\<bar>"] by simp
  then show ?thesis
    by (simp add: float_of_int_small[OF assms] str_int_def)
qed

lemma format_f0_0: "format_f0 (PyInt 0) = Inr ''0''"
  using format_f0_int[of 0] by (simp add: str_int_def str_nat_0)

lemma format_f0_10: "format_f0 (PyInt 10) = Inr ''10''"
  using format_f0_int[of 10] by (simp add: str_int_def str_nat.simps digit_char_def)

lemma format_f0_42: "format_f0 (PyInt 42) = Inr ''42''"
  using format_f0_int[of 42] by (simp add: str_int_def str_nat.simps digit_char_def)

text \<open>The double nearest to 73.4 is \<open>5165065822640538 / 2 ^ 46\<close>; it is printed as 73.\<close>

lemma shift_up_734: "shift_up 734 10 0 = 46"
  by (simp add: shift_up.simps)

lemma double_734: "double_of_ratio 734 10 = 5165065822640538 / 2 ^ 46"
  by (simp add: double_of_ratio_def shift_up_734 round_half_even_def)

lemma format_f0_73: "format_f0 (PyFloat (Finite False (double_of_ratio 734 10))) = Inr ''73''"
  by (simp add: double_734 round_half_even_def str_nat.simps digit_char_def)

text \<open>The \<^verbatim>\<open>int\<close> \<open>2 ^ 53 + 1\<close> is printed as \<open>2 ^ 53\<close>.\<close>

lemma format_f0_2_53_1: "format_f0 (PyInt 9007199254740993) = Inr ''9007199254740992''"
  by (simp add: float_of_int_def double_of_ratio_def shift_down.simps round_half_even_def
      str_nat.simps digit_char_def)

subsection \<open>What lines 143 to 152 extract\<close>

lemma dict_get_Some: "map_of d k = Some v \<Longrightarrow> dict_get d k dflt = v"
  by (simp add: dict_get_def)

lemma dict_get_None: "map_of d k = None \<Longrightarrow> dict_get d k dflt = dflt"
  by (simp add: dict_get_def)

lemma map_of_Some_nonempty: "map_of d k = Some v \<Longrightarrow> d \<noteq> []"
  by auto

lemma window_absent: "map_of data k = None \<Longrightarrow> window data k = []"
  by (simp add: window_def)

lemma window_record: "map_of data k = Some (PyDict w) \<Longrightarrow> window data k = w"
  by (simp add: window_def)

lemma window_falsy:
  assumes "map_of data k = Some v" and "\<not> truthy v"
  shows "window data k = []"
  using assms by (cases v) (simp_all add: window_def)

lemma percent_of_absent: "map_of data k = None \<Longrightarrow> percent_of data k = PyInt 0"
  by (simp add: percent_of_def window_absent dict_get_def)

lemma reset_of_absent: "map_of data k = None \<Longrightarrow> reset_of data k = PyStr ''''"
  by (simp add: reset_of_def window_absent dict_get_def)

lemma get2_window:
  assumes "record_or_absent data k"
  shows "get2 (PyDict data) k f dflt = Inr (dict_get (window data k) f dflt)"
proof (cases "map_of data k")
  case None
  then show ?thesis
    by (simp add: get2_def window_def dict_get_def)
next
  case (Some v)
  with assms obtain w where "v = PyDict w"
    by (cases v) (simp_all add: record_or_absent_def)
  with Some show ?thesis
    by (simp add: get2_def window_def dict_get_def)
qed

lemma sonnet_get:
  assumes "record_or_falsy data k"
  shows "py_get (PyDict data) k (PyDict []) = Inr (dict_get data k (PyDict []))"
    and "truthy (dict_get data k (PyDict [])) \<longleftrightarrow> window data k \<noteq> []"
    and "window data k \<noteq> []
         \<Longrightarrow> py_get (dict_get data k (PyDict [])) f dflt = Inr (dict_get (window data k) f dflt)"
proof -
  show "py_get (PyDict data) k (PyDict []) = Inr (dict_get data k (PyDict []))"
    by simp
  show "truthy (dict_get data k (PyDict [])) \<longleftrightarrow> window data k \<noteq> []"
  proof (cases "map_of data k")
    case None
    then show ?thesis
      by (simp add: dict_get_def window_def)
  next
    case (Some v)
    with assms show ?thesis
      by (cases v) (simp_all add: record_or_falsy_def dict_get_def window_def)
  qed
  show "py_get (dict_get data k (PyDict [])) f dflt = Inr (dict_get (window data k) f dflt)"
    if "window data k \<noteq> []"
  proof (cases "map_of data k")
    case None
    with that show ?thesis
      by (simp add: window_def)
  next
    case (Some v)
    with that show ?thesis
      by (cases v) (simp_all add: dict_get_def window_def)
  qed
qed

lemma extract_fields_dict:
  assumes "extractable data"
  shows "extract_fields (PyDict data) =
           Inr (percent_of data ''five_hour'', reset_of data ''five_hour'',
                percent_of data ''seven_day'', reset_of data ''seven_day'',
                (if window data ''seven_day_sonnet'' \<noteq> []
                 then percent_of data ''seven_day_sonnet'' else PyNone),
                (if window data ''seven_day_sonnet'' \<noteq> []
                 then reset_of data ''seven_day_sonnet'' else PyStr ''''))"
proof -
  have five: "record_or_absent data ''five_hour''" and seven: "record_or_absent data ''seven_day''"
    and sonnet: "record_or_falsy data ''seven_day_sonnet''"
    using assms by (simp_all add: extractable_def)
  show ?thesis
  proof (cases "window data ''seven_day_sonnet'' = []")
    case True
    then have "\<not> truthy (dict_get data ''seven_day_sonnet'' (PyDict []))"
      using sonnet_get(2)[OF sonnet] by simp
    with True show ?thesis
      unfolding extract_fields_def get2_window[OF five] get2_window[OF seven]
        sonnet_get(1)[OF sonnet]
      by (simp add: percent_of_def reset_of_def)
  next
    case False
    then have "truthy (dict_get data ''seven_day_sonnet'' (PyDict []))"
      using sonnet_get(2)[OF sonnet] by simp
    with False show ?thesis
      unfolding extract_fields_def get2_window[OF five] get2_window[OF seven]
        sonnet_get(1)[OF sonnet]
      by (simp add: sonnet_get(3)[OF sonnet False] percent_of_def reset_of_def)
  qed
qed

subsection \<open>What \<^verbatim>\<open>update_display\<close> writes\<close>

lemma time_text_falsy: "\<not> truthy v \<Longrightarrow> time_text fromisoformat now v = ''?''"
  by (simp add: time_text_def)

lemma update_display_falsy:
  assumes "usage_data st = Some u" and "\<not> truthy u"
  shows "update_display fromisoformat clk st = (None, st)"
  using assms by (simp add: update_display_def)

text \<open>The title and the session row are written as soon as the session percentage formats.\<close>

lemma update_display_title:
  assumes "usage_data st = Some (PyDict data)" and "data \<noteq> []" and "extractable data"
    and "format_f0 (percent_of data ''five_hour'') = Inr s5"
  shows "title (snd (update_display fromisoformat clk st)) = ''Claude: '' @ s5 @ ''%''"
    and "session_limit (snd (update_display fromisoformat clk st)) =
           ''Session: '' @ s5 @ ''% (resets in '' @
           time_text fromisoformat (now_session clk) (reset_of data ''five_hour'') @ '')''"
  using assms
  by (simp_all add: update_display_def extract_fields_dict Let_def split: sum.splits)

lemma update_display_weekly:
  assumes "usage_data st = Some (PyDict data)" and "data \<noteq> []" and "extractable data"
    and "format_f0 (percent_of data ''five_hour'') = Inr s5"
    and "format_f0 (percent_of data ''seven_day'') = Inr s7"
  shows "weekly_limit (snd (update_display fromisoformat clk st)) =
           ''Weekly: '' @ s7 @ ''% (resets in '' @
           time_text fromisoformat (now_weekly clk) (reset_of data ''seven_day'') @ '')''"
  using assms
  by (simp add: update_display_def extract_fields_dict Let_def split: sum.splits)

lemma update_display_sonnet_na:
  assumes "usage_data st = Some (PyDict data)" and "data \<noteq> []" and "extractable data"
    and "format_f0 (percent_of data ''five_hour'') = Inr s5"
    and "format_f0 (percent_of data ''seven_day'') = Inr s7"
    and "window data ''seven_day_sonnet'' = [] \<or> percent_of data ''seven_day_sonnet'' = PyNone"
  shows "fst (update_display fromisoformat clk st) = None"
    and "sonnet_limit (snd (update_display fromisoformat clk st)) = ''Sonnet: N/A''"
  using assms
  by (auto simp: update_display_def extract_fields_dict Let_def)

lemma update_display_sonnet:
  assumes "usage_data st = Some (PyDict data)" and "data \<noteq> []" and "extractable data"
    and "format_f0 (percent_of data ''five_hour'') = Inr s5"
    and "format_f0 (percent_of data ''seven_day'') = Inr s7"
    and "window data ''seven_day_sonnet'' \<noteq> []"
    and "format_f0 (percent_of data ''seven_day_sonnet'') = Inr s"
  shows "fst (update_display fromisoformat clk st) = None"
    and "sonnet_limit (snd (update_display fromisoformat clk st)) =
           ''Sonnet: '' @ s @ ''% (resets in '' @
           time_text fromisoformat (now_sonnet clk) (reset_of data ''seven_day_sonnet'') @ '')''"
  using assms
  by (auto simp: update_display_def extract_fields_dict Let_def)

text \<open>What \<^verbatim>\<open>update_display\<close> and \<^verbatim>\<open>refresh\<close> leave alone.\<close>

lemma update_display_frame:
  "api (snd (update_display fromisoformat clk st)) = api st
   \<and> usage_data (snd (update_display fromisoformat clk st)) = usage_data st
   \<and> keyring (snd (update_display fromisoformat clk st)) = keyring st
   \<and> set_password_calls (snd (update_display fromisoformat clk st)) = set_password_calls st
   \<and> get_calls (snd (update_display fromisoformat clk st)) = get_calls st
   \<and> alerts (snd (update_display fromisoformat clk st)) = alerts st
   \<and> windows (snd (update_display fromisoformat clk st)) = windows st
   \<and> browser (snd (update_display fromisoformat clk st)) = browser st"
  by (simp add: update_display_def Let_def split: option.splits sum.splits prod.splits)

lemma refresh_frame:
  "api (snd (refresh net fromisoformat clk st)) = api st
   \<and> keyring (snd (refresh net fromisoformat clk st)) = keyring st
   \<and> set_password_calls (snd (refresh net fromisoformat clk st)) = set_password_calls st
   \<and> get_calls (snd (refresh net fromisoformat clk st)) =
       get_calls st @ (case api st of None \<Rightarrow> [] | Some a \<Rightarrow> [a])
   \<and> alerts (snd (refresh net fromisoformat clk st)) = alerts st
   \<and> windows (snd (refresh net fromisoformat clk st)) = windows st
   \<and> browser (snd (refresh net fromisoformat clk st)) = browser st"
  by (simp add: refresh_def get_usage_def update_display_frame split: option.splits)

text \<open>A falsy body is handled like a failed fetch.\<close>

lemma refresh_falsy:
  assumes "api st = Some a" and "net a = Some u" and "\<not> truthy u"
  shows "refresh net fromisoformat clk st =
           (None, st\<lparr>get_calls := get_calls st @ [a], title := ''Claude: Error''\<rparr>)"
  using assms by (simp add: refresh_def get_usage_def)

subsection \<open>The worked example and the credentials\<close>

lemma example_extractable: "extractable example_snapshot"
  by (simp add: extractable_def record_or_absent_def record_or_falsy_def example_snapshot_def)

lemma example_fields:
  "percent_of example_snapshot ''five_hour'' = PyFloat (Finite False (double_of_ratio 734 10))"
  "reset_of example_snapshot ''five_hour'' = PyStr ''2030-01-01T02:05:00Z''"
  "percent_of example_snapshot ''seven_day'' = PyInt 10"
  "reset_of example_snapshot ''seven_day'' = PyStr ''2030-01-01T00:50:00Z''"
  "window example_snapshot ''seven_day_sonnet'' = []"
  by (simp_all add: percent_of_def reset_of_def window_def dict_get_def example_snapshot_def)

text \<open>
  With 73.4 percent of the session window used and 125 minutes left, and 10 percent of
  the weekly window used and 50 minutes left, a refresh shows \<^verbatim>\<open>Claude: 73%\<close>,
  \<^verbatim>\<open>Session: 73% (resets in 2h 5m)\<close>, \<^verbatim>\<open>Weekly: 10% (resets in 50m)\<close> and \<^verbatim>\<open>Sonnet: N/A\<close>.
\<close>

lemma worked_example:
  "refresh (\<lambda>a. Some (PyDict example_snapshot)) example_fromisoformat example_clock
     (initial_app\<lparr>api := Some \<lparr>session_key = ''sk-ant-sid01-abc'', org_id = ''org-1''\<rparr>\<rparr>)
   = (None, rendered_app)"
proof -
  have ne: "example_snapshot \<noteq> []"
    by (simp add: example_snapshot_def)
  show ?thesis
    using ne
    by (simp add: rendered_app_def initial_app_def refresh_def get_usage_def update_display_def
        extract_fields_dict[OF example_extractable] example_fields Let_def
        format_f0_73 format_f0_10 example_clock_def
        example_countdown_0205 example_countdown_0050 del: format_f0.simps)
qed

text \<open>No client is configured when a credential is missing from the keyring or empty.\<close>

lemma load_credentials_absent:
  assumes "keyring st KEYRING_SESSION_KEY \<in> {None, Some []}
           \<or> keyring st KEYRING_ORG_ID \<in> {None, Some []}"
  shows "api (load_credentials st) = None"
  using assms by (auto simp: load_credentials_def split: option.splits)

lemma load_credentials_present:
  assumes "keyring st KEYRING_SESSION_KEY = Some skey" and "skey \<noteq> []"
    and "keyring st KEYRING_ORG_ID = Some oid" and "oid \<noteq> []"
  shows "api (load_credentials st) = Some \<lparr>session_key = skey, org_id = oid\<rparr>"
  using assms by (simp add: load_credentials_def)

subsection \<open>The claims about the title and the rows\<close>

text \<open>
  C5, as the code has it. Let the snapshot be a \<^verbatim>\<open>dict\<close> on which lines 143 to 152 raise
  nothing (\<^verbatim>\<open>five_hour\<close> and \<^verbatim>\<open>seven_day\<close> are records where present, \<^verbatim>\<open>seven_day_sonnet\<close> is
  a record or falsy where present), with \<^verbatim>\<open>five_hour.percent_used\<close> equal to a number \<open>p\<close>.
  When \<open>p\<close> is an \<^verbatim>\<open>int\<close> of magnitude at most \<open>2 ^ 53\<close>, the title after \<^verbatim>\<open>update_display\<close>
  is \<^verbatim>\<open>Claude: \<close>, \<open>p\<close> itself and \<^verbatim>\<open>%\<close>. When \<open>p\<close> is a finite \<^verbatim>\<open>float\<close>, the title is
  \<^verbatim>\<open>Claude: \<close>, a minus sign when the \<^verbatim>\<open>float\<close> is negative (negative zero included), the
  whole number nearest to its magnitude, and \<^verbatim>\<open>%\<close>; no whole number is nearer to the
  magnitude than the one shown, and of two equally near ones the even one is shown.
\<close>

theorem title_rounds_percent:
  assumes "usage_data st = Some (PyDict data)" and "extractable data"
    and "map_of data ''five_hour'' = Some (PyDict w)"
    and "map_of w ''percent_used'' = Some p"
  shows "(p = PyInt i \<and> \<bar>i\<bar> \<le> 2 ^ 53 \<longrightarrow>
            title (snd (update_display fromisoformat clk st)) = ''Claude: '' @ str_int i @ ''%'')
       \<and> (p = PyFloat (Finite neg m) \<longrightarrow>
            title (snd (update_display fromisoformat clk st)) =
              ''Claude: '' @ (if neg then ''-'' else '''') @
              str_nat (nat (round_half_even \<bar>m\<bar>)) @ ''%''
            \<and> 0 \<le> round_half_even \<bar>m\<bar>
            \<and> \<bar>real_of_int (round_half_even \<bar>m\<bar>) - \<bar>m\<bar>\<bar> \<le> 1 / 2
            \<and> (\<forall>k::int. \<bar>real_of_int (round_half_even \<bar>m\<bar>) - \<bar>m\<bar>\<bar>
                          \<le> \<bar>real_of_int k - \<bar>m\<bar>\<bar>))"
proof -
  have ne: "data \<noteq> []"
    using assms(3) by (rule map_of_Some_nonempty)
  have pct: "percent_of data ''five_hour'' = p"
    using assms(3,4) by (simp add: percent_of_def window_record dict_get_Some)
  note t = update_display_title(1)[OF assms(1) ne assms(2), unfolded pct]
  have a: "title (snd (update_display fromisoformat clk st)) = ''Claude: '' @ str_int i @ ''%''"
    if "p = PyInt i" and "\<bar>i\<bar> \<le> 2 ^ 53"
    using t[of "str_int i" fromisoformat clk] that format_f0_int[of i]
    by (simp del: format_f0.simps)
  have b: "title (snd (update_display fromisoformat clk st)) =
             ''Claude: '' @ (if neg then ''-'' else '''') @
             str_nat (nat (round_half_even \<bar>m\<bar>)) @ ''%''"
    if "p = PyFloat (Finite neg m)"
    using t[of "fmt_float (Finite neg m)" fromisoformat clk] that by simp
  have near: "\<bar>real_of_int (round_half_even \<bar>m\<bar>) - \<bar>m\<bar>\<bar> \<le> 1 / 2"
    by (rule round_half_even_near)
  have "0 \<le> round_half_even \<bar>m\<bar>"
    by (simp add: round_half_even_nonneg)
  with a b near nearest_of_half[OF near] show ?thesis
    by blast
qed

theorem title_rounds_percent_witness:
  "usage_data (initial_app\<lparr>usage_data := Some (PyDict example_snapshot)\<rparr>)
     = Some (PyDict example_snapshot)
   \<and> extractable example_snapshot
   \<and> map_of example_snapshot ''five_hour'' =
       Some (PyDict [(''percent_used'', PyFloat (Finite False (double_of_ratio 734 10))),
                     (''resets_at'', PyStr ''2030-01-01T02:05:00Z'')])
   \<and> title (snd (update_display example_fromisoformat example_clock
                    (initial_app\<lparr>usage_data := Some (PyDict example_snapshot)\<rparr>)))
       = ''Claude: 73%''
   \<and> extractable [(''five_hour'', PyDict [(''percent_used'', PyInt 10)])]
   \<and> \<bar>10 :: int\<bar> \<le> 2 ^ 53
   \<and> title (snd (update_display example_fromisoformat example_clock
         (initial_app\<lparr>usage_data :=
            Some (PyDict [(''five_hour'', PyDict [(''percent_used'', PyInt 10)])])\<rparr>)))
       = ''Claude: 10%''"
proof -
  have h1: "usage_data (initial_app\<lparr>usage_data := Some (PyDict example_snapshot)\<rparr>)
              = Some (PyDict example_snapshot)"
    by simp
  have h3: "map_of example_snapshot ''five_hour'' =
       Some (PyDict [(''percent_used'', PyFloat (Finite False (double_of_ratio 734 10))),
                     (''resets_at'', PyStr ''2030-01-01T02:05:00Z'')])"
    by (simp add: example_snapshot_def)
  have h4: "map_of [(''percent_used'', PyFloat (Finite False (double_of_ratio 734 10))),
                    (''resets_at'', PyStr ''2030-01-01T02:05:00Z'')] ''percent_used''
              = Some (PyFloat (Finite False (double_of_ratio 734 10)))"
    by simp
  have r1: "title (snd (update_display example_fromisoformat example_clock
                    (initial_app\<lparr>usage_data := Some (PyDict example_snapshot)\<rparr>)))
              = ''Claude: 73%''"
    using title_rounds_percent[OF h1 example_extractable h3 h4,
        of 0 example_fromisoformat example_clock False "double_of_ratio 734 10"] format_f0_73
    by simp
  define d2 where "d2 = [(''five_hour'', PyDict [(''percent_used'', PyInt 10)])]"
  have g1: "usage_data (initial_app\<lparr>usage_data := Some (PyDict d2)\<rparr>) = Some (PyDict d2)"
    by simp
  have g2: "extractable d2"
    by (simp add: d2_def extractable_def record_or_absent_def record_or_falsy_def)
  have g3: "map_of d2 ''five_hour'' = Some (PyDict [(''percent_used'', PyInt 10)])"
    by (simp add: d2_def)
  have g4: "map_of [(''percent_used'', PyInt 10)] ''percent_used'' = Some (PyInt 10)"
    by simp
  have g5: "\<bar>10 :: int\<bar> \<le> 2 ^ 53"
    by simp
  have r2: "title (snd (update_display example_fromisoformat example_clock
                    (initial_app\<lparr>usage_data := Some (PyDict d2)\<rparr>))) = ''Claude: 10%''"
    using title_rounds_percent[OF g1 g2 g3 g4, of 10 example_fromisoformat example_clock False 0]
    by (simp add: str_int_def str_nat.simps digit_char_def)
  from h1 example_extractable h3 r1 g2 g5 r2 show ?thesis
    unfolding d2_def by (intro conjI)
qed

text \<open>
  The claim C5 as it is written fails for an \<^verbatim>\<open>int\<close> beyond \<open>2 ^ 53\<close>, which \<^verbatim>\<open>.0f\<close>
  converts to a double: 9007199254740993 is shown as 9007199254740992. It also fails
  when another window is no record: with \<^verbatim>\<open>seven_day\<close> null the extraction raises
  \<^verbatim>\<open>AttributeError\<close> and the title stays as it was.
\<close>

theorem large_percent_counterexample:
  "title (snd (update_display example_fromisoformat example_clock
       (initial_app\<lparr>usage_data :=
          Some (PyDict [(''five_hour'', PyDict [(''percent_used'', PyInt 9007199254740993)])])\<rparr>)))
     = ''Claude: 9007199254740992%''
   \<and> title (snd (update_display example_fromisoformat example_clock
       (initial_app\<lparr>usage_data :=
          Some (PyDict [(''five_hour'', PyDict [(''percent_used'', PyInt 9007199254740993)])])\<rparr>)))
     \<noteq> ''Claude: 9007199254740993%''
   \<and> fst (update_display example_fromisoformat example_clock
       (initial_app\<lparr>usage_data :=
          Some (PyDict [(''five_hour'', PyDict [(''percent_used'', PyInt 73)]),
                        (''seven_day'', PyNone)])\<rparr>)) = Some AttributeError
   \<and> title (snd (update_display example_fromisoformat example_clock
       (initial_app\<lparr>usage_data :=
          Some (PyDict [(''five_hour'', PyDict [(''percent_used'', PyInt 73)]),
                        (''seven_day'', PyNone)])\<rparr>))) = ''Claude: --%''"
proof -
  define d where "d = [(''five_hour'', PyDict [(''percent_used'', PyInt 9007199254740993)])]"
  have e: "extractable d" and ne: "d \<noteq> []"
    by (simp_all add: d_def extractable_def record_or_absent_def record_or_falsy_def)
  have p: "format_f0 (percent_of d ''five_hour'') = Inr ''9007199254740992''"
    by (simp add: d_def percent_of_def window_def dict_get_def format_f0_2_53_1
        del: format_f0.simps)
  have u: "usage_data (initial_app\<lparr>usage_data := Some (PyDict d)\<rparr>) = Some (PyDict d)"
    by simp
  have t: "title (snd (update_display example_fromisoformat example_clock
             (initial_app\<lparr>usage_data := Some (PyDict d)\<rparr>))) = ''Claude: 9007199254740992%''"
    using update_display_title(1)[OF u ne e p, of example_fromisoformat example_clock]
    by simp
  then have n: "title (snd (update_display example_fromisoformat example_clock
             (initial_app\<lparr>usage_data := Some (PyDict d)\<rparr>))) \<noteq> ''Claude: 9007199254740993%''"
    by simp
  have r: "update_display example_fromisoformat example_clock
       (initial_app\<lparr>usage_data :=
          Some (PyDict [(''five_hour'', PyDict [(''percent_used'', PyInt 73)]),
                        (''seven_day'', PyNone)])\<rparr>)
     = (Some AttributeError, initial_app\<lparr>usage_data :=
          Some (PyDict [(''five_hour'', PyDict [(''percent_used'', PyInt 73)]),
                        (''seven_day'', PyNone)])\<rparr>)"
    by (simp add: update_display_def extract_fields_def get2_def dict_get_def)
  from t n show ?thesis
    unfolding d_def r by (simp add: initial_app_def)
qed

text \<open>
  C6. A refresh with a configured client whose fetch fails raises nothing, sets the title
  to \<^verbatim>\<open>Claude: Error\<close> and leaves the three rows and the cached snapshot as they were.
\<close>

theorem refresh_fetch_failed:
  assumes "api st = Some a" and "net a = None"
  shows "fst (refresh net fromisoformat clk st) = None
       \<and> title (snd (refresh net fromisoformat clk st)) = ''Claude: Error''
       \<and> session_limit (snd (refresh net fromisoformat clk st)) = session_limit st
       \<and> weekly_limit (snd (refresh net fromisoformat clk st)) = weekly_limit st
       \<and> sonnet_limit (snd (refresh net fromisoformat clk st)) = sonnet_limit st
       \<and> usage_data (snd (refresh net fromisoformat clk st)) = usage_data st"
  using assms by (simp add: refresh_def get_usage_def)

theorem refresh_fetch_failed_witness:
  "api rendered_app = Some \<lparr>session_key = ''sk-ant-sid01-abc'', org_id = ''org-1''\<rparr>
   \<and> title (snd (refresh (\<lambda>a. None) example_fromisoformat example_clock rendered_app))
       = ''Claude: Error''
   \<and> session_limit (snd (refresh (\<lambda>a. None) example_fromisoformat example_clock rendered_app))
       = ''Session: 73% (resets in 2h 5m)''
   \<and> weekly_limit (snd (refresh (\<lambda>a. None) example_fromisoformat example_clock rendered_app))
       = ''Weekly: 10% (resets in 50m)''
   \<and> sonnet_limit (snd (refresh (\<lambda>a. None) example_fromisoformat example_clock rendered_app))
       = ''Sonnet: N/A''"
proof -
  have h: "api rendered_app = Some \<lparr>session_key = ''sk-ant-sid01-abc'', org_id = ''org-1''\<rparr>"
    by (simp add: rendered_app_def)
  have rows: "session_limit rendered_app = ''Session: 73% (resets in 2h 5m)''"
    "weekly_limit rendered_app = ''Weekly: 10% (resets in 50m)''"
    "sonnet_limit rendered_app = ''Sonnet: N/A''"
    by (simp_all add: rendered_app_def)
  note r = refresh_fetch_failed[where net = "\<lambda>a. None" and fromisoformat = example_fromisoformat
             and clk = example_clock, OF h refl]
  from h r rows show ?thesis
    by simp
qed

text \<open>
  C7. A refresh with no client configured sets the title to \<^verbatim>\<open>Claude: Setup\<close> and the three
  rows to \<^verbatim>\<open>Not configured\<close> behind their labels, whatever snapshot is cached; it sends no
  request, and its result does not depend on the network, the parser or the clock.
\<close>

theorem refresh_not_configured:
  assumes "api st = None"
  shows "fst (refresh net fromisoformat clk st) = None
       \<and> title (snd (refresh net fromisoformat clk st)) = ''Claude: Setup''
       \<and> session_limit (snd (refresh net fromisoformat clk st)) = ''Session: Not configured''
       \<and> weekly_limit (snd (refresh net fromisoformat clk st)) = ''Weekly: Not configured''
       \<and> sonnet_limit (snd (refresh net fromisoformat clk st)) = ''Sonnet: Not configured''
       \<and> get_calls (snd (refresh net fromisoformat clk st)) = get_calls st
       \<and> refresh net fromisoformat clk st = refresh net' fromisoformat' clk' st"
  using assms by (simp add: refresh_def)

theorem refresh_not_configured_witness:
  "api (rendered_app\<lparr>api := None\<rparr>) = None
   \<and> usage_data (rendered_app\<lparr>api := None\<rparr>) = Some (PyDict example_snapshot)
   \<and> title (snd (refresh (\<lambda>a. Some (PyDict example_snapshot)) example_fromisoformat
                    example_clock (rendered_app\<lparr>api := None\<rparr>))) = ''Claude: Setup''
   \<and> session_limit (snd (refresh (\<lambda>a. Some (PyDict example_snapshot)) example_fromisoformat
                    example_clock (rendered_app\<lparr>api := None\<rparr>))) = ''Session: Not configured''
   \<and> weekly_limit (snd (refresh (\<lambda>a. Some (PyDict example_snapshot)) example_fromisoformat
                    example_clock (rendered_app\<lparr>api := None\<rparr>))) = ''Weekly: Not configured''
   \<and> sonnet_limit (snd (refresh (\<lambda>a. Some (PyDict example_snapshot)) example_fromisoformat
                    example_clock (rendered_app\<lparr>api := None\<rparr>))) = ''Sonnet: Not configured''
   \<and> get_calls (snd (refresh (\<lambda>a. Some (PyDict example_snapshot)) example_fromisoformat
                    example_clock (rendered_app\<lparr>api := None\<rparr>))) = get_calls rendered_app"
proof -
  have h: "api (rendered_app\<lparr>api := None\<rparr>) = None"
    by simp
  have u: "usage_data (rendered_app\<lparr>api := None\<rparr>) = Some (PyDict example_snapshot)"
    and g: "get_calls (rendered_app\<lparr>api := None\<rparr>) = get_calls rendered_app"
    by (simp_all add: rendered_app_def)
  note r = refresh_not_configured[where net = "\<lambda>a. Some (PyDict example_snapshot)"
             and fromisoformat = example_fromisoformat and clk = example_clock, OF h]
  from h u r g show ?thesis
    by simp
qed

text \<open>
  C8, as the code has it. A fetched body that is falsy (the empty object \<^verbatim>\<open>{}\<close>, null, zero,
  an empty string or list) is handled as a failed fetch: the title becomes
  \<^verbatim>\<open>Claude: Error\<close>, the rows and the cached snapshot stay as they were; and
  \<^verbatim>\<open>update_display\<close> does nothing on a falsy cached snapshot. For a non-empty \<^verbatim>\<open>dict\<close> on
  which lines 143 to 152 raise nothing (\<^verbatim>\<open>five_hour\<close> and \<^verbatim>\<open>seven_day\<close> are records where
  present, \<^verbatim>\<open>seven_day_sonnet\<close> is a record or falsy where present): when \<^verbatim>\<open>five_hour\<close> is
  missing, the title and the session row show 0 percent and the placeholder \<^verbatim>\<open>?\<close>; when
  \<^verbatim>\<open>seven_day\<close> is missing and \<^verbatim>\<open>.0f\<close> formats the session percentage, the weekly row shows
  0 percent and \<^verbatim>\<open>?\<close>; and a missing, empty or otherwise falsy \<^verbatim>\<open>resets_at\<close> puts \<^verbatim>\<open>?\<close> in
  the row of its window, when \<^verbatim>\<open>.0f\<close> formats the percentage of that row and, for the
  weekly row, the session percentage before it.
\<close>

theorem missing_window_defaults:
  "(api st = Some a \<and> net a = Some u \<and> \<not> truthy u \<longrightarrow>
      fst (refresh net fromisoformat clk st) = None
      \<and> title (snd (refresh net fromisoformat clk st)) = ''Claude: Error''
      \<and> session_limit (snd (refresh net fromisoformat clk st)) = session_limit st
      \<and> weekly_limit (snd (refresh net fromisoformat clk st)) = weekly_limit st
      \<and> sonnet_limit (snd (refresh net fromisoformat clk st)) = sonnet_limit st
      \<and> usage_data (snd (refresh net fromisoformat clk st)) = usage_data st)
   \<and> (usage_data st = Some u \<and> \<not> truthy u \<longrightarrow>
      update_display fromisoformat clk st = (None, st))
   \<and> (usage_data st = Some (PyDict data) \<and> data \<noteq> [] \<and> extractable data \<longrightarrow>
      (let st' = snd (update_display fromisoformat clk st)
       in (map_of data ''five_hour'' = None \<longrightarrow>
             title st' = ''Claude: 0%'' \<and> session_limit st' = ''Session: 0% (resets in ?)'')
        \<and> (map_of data ''seven_day'' = None
             \<and> format_f0 (percent_of data ''five_hour'') = Inr s5 \<longrightarrow>
             weekly_limit st' = ''Weekly: 0% (resets in ?)'')
        \<and> (format_f0 (percent_of data ''five_hour'') = Inr s5
             \<and> \<not> truthy (reset_of data ''five_hour'') \<longrightarrow>
             session_limit st' = ''Session: '' @ s5 @ ''% (resets in ?)'')
        \<and> (format_f0 (percent_of data ''five_hour'') = Inr s5
             \<and> format_f0 (percent_of data ''seven_day'') = Inr s7
             \<and> \<not> truthy (reset_of data ''seven_day'') \<longrightarrow>
             weekly_limit st' = ''Weekly: '' @ s7 @ ''% (resets in ?)'')))"
proof (intro conjI impI)
  assume "api st = Some a \<and> net a = Some u \<and> \<not> truthy u"
  then have r: "refresh net fromisoformat clk st =
                  (None, st\<lparr>get_calls := get_calls st @ [a], title := ''Claude: Error''\<rparr>)"
    by (simp add: refresh_falsy)
  show "fst (refresh net fromisoformat clk st) = None"
    and "title (snd (refresh net fromisoformat clk st)) = ''Claude: Error''"
    and "session_limit (snd (refresh net fromisoformat clk st)) = session_limit st"
    and "weekly_limit (snd (refresh net fromisoformat clk st)) = weekly_limit st"
    and "sonnet_limit (snd (refresh net fromisoformat clk st)) = sonnet_limit st"
    and "usage_data (snd (refresh net fromisoformat clk st)) = usage_data st"
    by (simp_all add: r)
next
  assume "usage_data st = Some u \<and> \<not> truthy u"
  then show "update_display fromisoformat clk st = (None, st)"
    by (simp add: update_display_falsy)
next
  assume h: "usage_data st = Some (PyDict data) \<and> data \<noteq> [] \<and> extractable data"
  then have h1: "usage_data st = Some (PyDict data)" and h2: "data \<noteq> []"
    and h3: "extractable data"
    by simp_all
  note t = update_display_title[OF h1 h2 h3]
  note w = update_display_weekly[OF h1 h2 h3]
  have a: "title (snd (update_display fromisoformat clk st)) = ''Claude: 0%''
           \<and> session_limit (snd (update_display fromisoformat clk st))
               = ''Session: 0% (resets in ?)''"
    if m: "map_of data ''five_hour'' = None"
  proof -
    have f: "format_f0 (percent_of data ''five_hour'') = Inr ''0''"
      by (simp only: percent_of_absent[OF m] format_f0_0)
    have "time_text fromisoformat (now_session clk) (reset_of data ''five_hour'') = ''?''"
      by (simp add: reset_of_absent[OF m] time_text_falsy)
    then show ?thesis
      using t[OF f, of fromisoformat clk] by simp
  qed
  have b: "weekly_limit (snd (update_display fromisoformat clk st)) = ''Weekly: 0% (resets in ?)''"
    if m: "map_of data ''seven_day'' = None"
      and f5: "format_f0 (percent_of data ''five_hour'') = Inr s5"
  proof -
    have f: "format_f0 (percent_of data ''seven_day'') = Inr ''0''"
      by (simp only: percent_of_absent[OF m] format_f0_0)
    have "time_text fromisoformat (now_weekly clk) (reset_of data ''seven_day'') = ''?''"
      by (simp add: reset_of_absent[OF m] time_text_falsy)
    then show ?thesis
      using w[OF f5 f, of fromisoformat clk] by simp
  qed
  have c: "session_limit (snd (update_display fromisoformat clk st))
             = ''Session: '' @ s5 @ ''% (resets in ?)''"
    if f5: "format_f0 (percent_of data ''five_hour'') = Inr s5"
      and "\<not> truthy (reset_of data ''five_hour'')"
    using t(2)[OF f5, of fromisoformat clk] that(2) by (simp add: time_text_falsy)
  have d: "weekly_limit (snd (update_display fromisoformat clk st))
             = ''Weekly: '' @ s7 @ ''% (resets in ?)''"
    if f5: "format_f0 (percent_of data ''five_hour'') = Inr s5"
      and f7: "format_f0 (percent_of data ''seven_day'') = Inr s7"
      and "\<not> truthy (reset_of data ''seven_day'')"
    using w[OF f5 f7, of fromisoformat clk] that(3) by (simp add: time_text_falsy)
  from a b c d show "let st' = snd (update_display fromisoformat clk st)
       in (map_of data ''five_hour'' = None \<longrightarrow>
             title st' = ''Claude: 0%'' \<and> session_limit st' = ''Session: 0% (resets in ?)'')
        \<and> (map_of data ''seven_day'' = None
             \<and> format_f0 (percent_of data ''five_hour'') = Inr s5 \<longrightarrow>
             weekly_limit st' = ''Weekly: 0% (resets in ?)'')
        \<and> (format_f0 (percent_of data ''five_hour'') = Inr s5
             \<and> \<not> truthy (reset_of data ''five_hour'') \<longrightarrow>
             session_limit st' = ''Session: '' @ s5 @ ''% (resets in ?)'')
        \<and> (format_f0 (percent_of data ''five_hour'') = Inr s5
             \<and> format_f0 (percent_of data ''seven_day'') = Inr s7
             \<and> \<not> truthy (reset_of data ''seven_day'') \<longrightarrow>
             weekly_limit st' = ''Weekly: '' @ s7 @ ''% (resets in ?)'')"
    unfolding Let_def by blast
qed

theorem missing_window_defaults_witness:
  "map_of [(''seven_day_sonnet'', PyDict [(''percent_used'', PyInt 42)])] ''five_hour'' = None
   \<and> map_of [(''seven_day_sonnet'', PyDict [(''percent_used'', PyInt 42)])] ''seven_day'' = None
   \<and> extractable [(''seven_day_sonnet'', PyDict [(''percent_used'', PyInt 42)])]
   \<and> title (snd (update_display example_fromisoformat example_clock
         (initial_app\<lparr>usage_data :=
            Some (PyDict [(''seven_day_sonnet'', PyDict [(''percent_used'', PyInt 42)])])\<rparr>)))
       = ''Claude: 0%''
   \<and> session_limit (snd (update_display example_fromisoformat example_clock
         (initial_app\<lparr>usage_data :=
            Some (PyDict [(''seven_day_sonnet'', PyDict [(''percent_used'', PyInt 42)])])\<rparr>)))
       = ''Session: 0% (resets in ?)''
   \<and> weekly_limit (snd (update_display example_fromisoformat example_clock
         (initial_app\<lparr>usage_data :=
            Some (PyDict [(''seven_day_sonnet'', PyDict [(''percent_used'', PyInt 42)])])\<rparr>)))
       = ''Weekly: 0% (resets in ?)''
   \<and> extractable [(''five_hour'', PyDict [(''percent_used'', PyInt 10)]),
                   (''seven_day'', PyDict [(''percent_used'', PyInt 42),
                                           (''resets_at'', PyStr '''')])]
   \<and> session_limit (snd (update_display example_fromisoformat example_clock
         (initial_app\<lparr>usage_data :=
            Some (PyDict [(''five_hour'', PyDict [(''percent_used'', PyInt 10)]),
                          (''seven_day'', PyDict [(''percent_used'', PyInt 42),
                                                  (''resets_at'', PyStr '''')])])\<rparr>)))
       = ''Session: 10% (resets in ?)''
   \<and> weekly_limit (snd (update_display example_fromisoformat example_clock
         (initial_app\<lparr>usage_data :=
            Some (PyDict [(''five_hour'', PyDict [(''percent_used'', PyInt 10)]),
                          (''seven_day'', PyDict [(''percent_used'', PyInt 42),
                                                  (''resets_at'', PyStr '''')])])\<rparr>)))
       = ''Weekly: 42% (resets in ?)''
   \<and> \<not> truthy (PyDict [])
   \<and> title (snd (refresh (\<lambda>a. Some (PyDict [])) example_fromisoformat example_clock
                    rendered_app)) = ''Claude: Error''
   \<and> session_limit (snd (refresh (\<lambda>a. Some (PyDict [])) example_fromisoformat example_clock
                    rendered_app)) = ''Session: 73% (resets in 2h 5m)''
   \<and> update_display example_fromisoformat example_clock
        (initial_app\<lparr>usage_data := Some (PyDict [])\<rparr>)
       = (None, initial_app\<lparr>usage_data := Some (PyDict [])\<rparr>)"
proof -
  define d1 where "d1 = [(''seven_day_sonnet'', PyDict [(''percent_used'', PyInt 42)])]"
  define d2 where "d2 = [(''five_hour'', PyDict [(''percent_used'', PyInt 10)]),
                         (''seven_day'', PyDict [(''percent_used'', PyInt 42),
                                                 (''resets_at'', PyStr '''')])]"
  have m5: "map_of d1 ''five_hour'' = None" and m7: "map_of d1 ''seven_day'' = None"
    and e1: "extractable d1" and n1: "d1 \<noteq> []"
    by (simp_all add: d1_def extractable_def record_or_absent_def record_or_falsy_def)
  have u1: "usage_data (initial_app\<lparr>usage_data := Some (PyDict d1)\<rparr>) = Some (PyDict d1)"
    by simp
  have f1: "format_f0 (percent_of d1 ''five_hour'') = Inr ''0''"
    by (simp only: percent_of_absent[OF m5] format_f0_0)
  note r1 = missing_window_defaults[where st = "initial_app\<lparr>usage_data := Some (PyDict d1)\<rparr>"
      and data = d1 and fromisoformat = example_fromisoformat and clk = example_clock
      and ?s5.0 = "''0''", unfolded Let_def]
  have a: "title (snd (update_display example_fromisoformat example_clock
                 (initial_app\<lparr>usage_data := Some (PyDict d1)\<rparr>))) = ''Claude: 0%''"
    and b: "session_limit (snd (update_display example_fromisoformat example_clock
                 (initial_app\<lparr>usage_data := Some (PyDict d1)\<rparr>))) = ''Session: 0% (resets in ?)''"
    and c: "weekly_limit (snd (update_display example_fromisoformat example_clock
                 (initial_app\<lparr>usage_data := Some (PyDict d1)\<rparr>))) = ''Weekly: 0% (resets in ?)''"
    using r1 u1 n1 e1 m5 m7 f1 by blast+
  have e2: "extractable d2" and n2: "d2 \<noteq> []"
    by (simp_all add: d2_def extractable_def record_or_absent_def record_or_falsy_def)
  have u2: "usage_data (initial_app\<lparr>usage_data := Some (PyDict d2)\<rparr>) = Some (PyDict d2)"
    by simp
  have f5: "format_f0 (percent_of d2 ''five_hour'') = Inr ''10''"
    and f7: "format_f0 (percent_of d2 ''seven_day'') = Inr ''42''"
    by (simp_all add: d2_def percent_of_def window_def dict_get_def format_f0_10 format_f0_42
        del: format_f0.simps)
  have t5: "\<not> truthy (reset_of d2 ''five_hour'')"
    and t7: "\<not> truthy (reset_of d2 ''seven_day'')"
    by (simp_all add: d2_def reset_of_def window_def dict_get_def)
  note r2 = missing_window_defaults[where st = "initial_app\<lparr>usage_data := Some (PyDict d2)\<rparr>"
      and data = d2 and fromisoformat = example_fromisoformat and clk = example_clock
      and ?s5.0 = "''10''" and ?s7.0 = "''42''", unfolded Let_def]
  have d: "session_limit (snd (update_display example_fromisoformat example_clock
                 (initial_app\<lparr>usage_data := Some (PyDict d2)\<rparr>))) = ''Session: 10% (resets in ?)''"
    and e: "weekly_limit (snd (update_display example_fromisoformat example_clock
                 (initial_app\<lparr>usage_data := Some (PyDict d2)\<rparr>))) = ''Weekly: 42% (resets in ?)''"
    using r2 u2 n2 e2 f5 f7 t5 t7 by auto
  have fl: "\<not> truthy (PyDict [])"
    by simp
  have ap: "api rendered_app = Some \<lparr>session_key = ''sk-ant-sid01-abc'', org_id = ''org-1''\<rparr>"
    and sl: "session_limit rendered_app = ''Session: 73% (resets in 2h 5m)''"
    by (simp_all add: rendered_app_def)
  note r3 = missing_window_defaults[where st = rendered_app
      and a = "\<lparr>session_key = ''sk-ant-sid01-abc'', org_id = ''org-1''\<rparr>"
      and net = "\<lambda>a. Some (PyDict [])" and u = "PyDict []"
      and fromisoformat = example_fromisoformat and clk = example_clock]
  have g: "title (snd (refresh (\<lambda>a. Some (PyDict [])) example_fromisoformat example_clock
                    rendered_app)) = ''Claude: Error''"
    and h: "session_limit (snd (refresh (\<lambda>a. Some (PyDict [])) example_fromisoformat
                    example_clock rendered_app)) = ''Session: 73% (resets in 2h 5m)''"
    using r3 ap fl sl by auto
  note r4 = missing_window_defaults[where st = "initial_app\<lparr>usage_data := Some (PyDict [])\<rparr>"
      and u = "PyDict []" and fromisoformat = example_fromisoformat and clk = example_clock]
  have i: "update_display example_fromisoformat example_clock
             (initial_app\<lparr>usage_data := Some (PyDict [])\<rparr>)
           = (None, initial_app\<lparr>usage_data := Some (PyDict [])\<rparr>)"
    using r4 fl by simp
  from m5 m7 e1 a b c e2 d e fl g h i show ?thesis
    unfolding d1_def d2_def by (intro conjI)
qed

text \<open>
  The claim C8 as it is written fails for the empty snapshot: fetched with a configured
  client, it gives the title \<^verbatim>\<open>Claude: Error\<close> and leaves the session row alone, and
  \<^verbatim>\<open>update_display\<close> returns at once when it is the cached snapshot. It also fails when
  \<^verbatim>\<open>five_hour\<close> is missing and \<^verbatim>\<open>seven_day\<close> is null: line 146 raises \<^verbatim>\<open>AttributeError\<close>
  before the title is written.
\<close>

theorem empty_snapshot_counterexample:
  "map_of ([] :: (string \<times> pyval) list) ''five_hour'' = None
   \<and> title (snd (refresh (\<lambda>a. Some (PyDict [])) example_fromisoformat example_clock
         (initial_app\<lparr>api := Some \<lparr>session_key = ''sk-ant-sid01-abc'', org_id = ''org-1''\<rparr>\<rparr>)))
       = ''Claude: Error''
   \<and> session_limit (snd (refresh (\<lambda>a. Some (PyDict [])) example_fromisoformat example_clock
         (initial_app\<lparr>api := Some \<lparr>session_key = ''sk-ant-sid01-abc'', org_id = ''org-1''\<rparr>\<rparr>)))
       = ''Session Limit''
   \<and> title (snd (update_display example_fromisoformat example_clock
         (initial_app\<lparr>usage_data := Some (PyDict [])\<rparr>))) = ''Claude: --%''
   \<and> title (snd (update_display example_fromisoformat example_clock
         (initial_app\<lparr>usage_data := Some (PyDict [])\<rparr>))) \<noteq> ''Claude: 0%''
   \<and> session_limit (snd (update_display example_fromisoformat example_clock
         (initial_app\<lparr>usage_data := Some (PyDict [])\<rparr>))) \<noteq> ''Session: 0% (resets in ?)''
   \<and> map_of [(''seven_day'', PyNone)] ''five_hour'' = None
   \<and> fst (update_display example_fromisoformat example_clock
         (initial_app\<lparr>usage_data := Some (PyDict [(''seven_day'', PyNone)])\<rparr>))
       = Some AttributeError
   \<and> title (snd (update_display example_fromisoformat example_clock
         (initial_app\<lparr>usage_data := Some (PyDict [(''seven_day'', PyNone)])\<rparr>)))
       = ''Claude: --%''
   \<and> fst (refresh (\<lambda>a. Some (PyDict [(''seven_day'', PyNone)])) example_fromisoformat
         example_clock
         (initial_app\<lparr>api := Some \<lparr>session_key = ''sk-ant-sid01-abc'', org_id = ''org-1''\<rparr>\<rparr>))
       = Some AttributeError"
  by (simp add: refresh_def get_usage_def update_display_def initial_app_def
      extract_fields_def get2_def dict_get_def)

text \<open>
  C1, as the code has it. Let the snapshot be a non-empty \<^verbatim>\<open>dict\<close> on which lines 143 to 152
  raise nothing (\<^verbatim>\<open>five_hour\<close> and \<^verbatim>\<open>seven_day\<close> are records where present,
  \<^verbatim>\<open>seven_day_sonnet\<close> is a record or falsy where present), whose session and weekly
  percentages \<^verbatim>\<open>.0f\<close> formats. The Sonnet row is \<^verbatim>\<open>Sonnet: N/A\<close> when the key
  \<^verbatim>\<open>seven_day_sonnet\<close> is absent, when its value is falsy (an empty record, null), and when
  its record is non-empty with \<^verbatim>\<open>percent_used\<close> null. When its record is non-empty and \<^verbatim>\<open>.0f\<close>
  formats its \<^verbatim>\<open>percent_used\<close> (0 when missing), the row is rendered like the mandatory
  windows; with \<^verbatim>\<open>percent_used\<close> missing and \<^verbatim>\<open>resets_at\<close> missing, empty or otherwise falsy
  it is \<^verbatim>\<open>Sonnet: 0% (resets in ?)\<close>.
\<close>

theorem sonnet_row:
  assumes "usage_data st = Some (PyDict data)" and "data \<noteq> []" and "extractable data"
    and "format_f0 (percent_of data ''five_hour'') = Inr s5"
    and "format_f0 (percent_of data ''seven_day'') = Inr s7"
  shows "let st' = snd (update_display fromisoformat clk st)
         in (map_of data ''seven_day_sonnet'' = None \<longrightarrow> sonnet_limit st' = ''Sonnet: N/A'')
          \<and> (map_of data ''seven_day_sonnet'' = Some v \<and> \<not> truthy v \<longrightarrow>
               sonnet_limit st' = ''Sonnet: N/A'')
          \<and> (map_of data ''seven_day_sonnet'' = Some (PyDict w) \<and> w \<noteq> []
               \<and> dict_get w ''percent_used'' (PyInt 0) = PyNone \<longrightarrow>
               sonnet_limit st' = ''Sonnet: N/A'')
          \<and> (map_of data ''seven_day_sonnet'' = Some (PyDict w) \<and> w \<noteq> []
               \<and> format_f0 (dict_get w ''percent_used'' (PyInt 0)) = Inr s \<longrightarrow>
               sonnet_limit st' =
                 ''Sonnet: '' @ s @ ''% (resets in '' @
                 time_text fromisoformat (now_sonnet clk)
                   (dict_get w ''resets_at'' (PyStr '''')) @ '')'')
          \<and> (map_of data ''seven_day_sonnet'' = Some (PyDict w) \<and> w \<noteq> []
               \<and> map_of w ''percent_used'' = None
               \<and> \<not> truthy (dict_get w ''resets_at'' (PyStr '''')) \<longrightarrow>
               sonnet_limit st' = ''Sonnet: 0% (resets in ?)'')"
proof -
  note na = update_display_sonnet_na(2)[OF assms]
  note row = update_display_sonnet(2)[OF assms]
  have a: "sonnet_limit (snd (update_display fromisoformat clk st)) = ''Sonnet: N/A''"
    if "map_of data ''seven_day_sonnet'' = None"
    using na[of fromisoformat clk] window_absent[OF that] by simp
  have b: "sonnet_limit (snd (update_display fromisoformat clk st)) = ''Sonnet: N/A''"
    if "map_of data ''seven_day_sonnet'' = Some v" and "\<not> truthy v"
    using na[of fromisoformat clk] window_falsy[OF that] by simp
  have c: "sonnet_limit (snd (update_display fromisoformat clk st)) = ''Sonnet: N/A''"
    if m: "map_of data ''seven_day_sonnet'' = Some (PyDict w)"
      and "dict_get w ''percent_used'' (PyInt 0) = PyNone"
  proof -
    have "percent_of data ''seven_day_sonnet'' = PyNone"
      using that by (simp add: percent_of_def window_record)
    then show ?thesis
      using na[of fromisoformat clk] by simp
  qed
  have d: "sonnet_limit (snd (update_display fromisoformat clk st)) =
             ''Sonnet: '' @ s @ ''% (resets in '' @
             time_text fromisoformat (now_sonnet clk) (dict_get w ''resets_at'' (PyStr '''')) @ '')''"
    if m: "map_of data ''seven_day_sonnet'' = Some (PyDict w)" and ne: "w \<noteq> []"
      and f: "format_f0 (dict_get w ''percent_used'' (PyInt 0)) = Inr s" for s
  proof -
    have wn: "window data ''seven_day_sonnet'' \<noteq> []"
      using m ne by (simp add: window_record)
    have p: "format_f0 (percent_of data ''seven_day_sonnet'') = Inr s"
      using m f by (simp only: percent_of_def window_record)
    have r: "reset_of data ''seven_day_sonnet'' = dict_get w ''resets_at'' (PyStr '''')"
      using m by (simp only: reset_of_def window_record)
    show ?thesis
      using row[OF wn p, of fromisoformat clk] by (simp only: r)
  qed
  have e: "sonnet_limit (snd (update_display fromisoformat clk st)) = ''Sonnet: 0% (resets in ?)''"
    if m: "map_of data ''seven_day_sonnet'' = Some (PyDict w)" and ne: "w \<noteq> []"
      and mp: "map_of w ''percent_used'' = None"
      and fr: "\<not> truthy (dict_get w ''resets_at'' (PyStr ''''))"
  proof -
    have f: "format_f0 (dict_get w ''percent_used'' (PyInt 0)) = Inr ''0''"
      by (simp only: dict_get_None[OF mp] format_f0_0)
    show ?thesis
      using d[OF m ne f] by (simp add: time_text_falsy[OF fr])
  qed
  from a b c d e show ?thesis
    unfolding Let_def by blast
qed

theorem sonnet_row_witness:
  "extractable example_snapshot
   \<and> map_of example_snapshot ''seven_day_sonnet'' = None
   \<and> sonnet_limit (snd (update_display example_fromisoformat example_clock
         (initial_app\<lparr>usage_data := Some (PyDict example_snapshot)\<rparr>))) = ''Sonnet: N/A''
   \<and> extractable [(''seven_day_sonnet'', PyDict [(''percent_used'', PyInt 42)])]
   \<and> sonnet_limit (snd (update_display example_fromisoformat example_clock
         (initial_app\<lparr>usage_data :=
            Some (PyDict [(''seven_day_sonnet'', PyDict [(''percent_used'', PyInt 42)])])\<rparr>)))
       = ''Sonnet: 42% (resets in ?)''
   \<and> extractable [(''seven_day_sonnet'', PyDict [(''resets_at'', PyStr '''')])]
   \<and> sonnet_limit (snd (update_display example_fromisoformat example_clock
         (initial_app\<lparr>usage_data :=
            Some (PyDict [(''seven_day_sonnet'', PyDict [(''resets_at'', PyStr '''')])])\<rparr>)))
       = ''Sonnet: 0% (resets in ?)''
   \<and> extractable [(''five_hour'', PyDict []), (''seven_day_sonnet'', PyNone)]
   \<and> sonnet_limit (snd (update_display example_fromisoformat example_clock
         (initial_app\<lparr>usage_data :=
            Some (PyDict [(''five_hour'', PyDict []), (''seven_day_sonnet'', PyNone)])\<rparr>)))
       = ''Sonnet: N/A''
   \<and> extractable [(''seven_day_sonnet'', PyDict [(''percent_used'', PyNone)])]
   \<and> sonnet_limit (snd (update_display example_fromisoformat example_clock
         (initial_app\<lparr>usage_data :=
            Some (PyDict [(''seven_day_sonnet'', PyDict [(''percent_used'', PyNone)])])\<rparr>)))
       = ''Sonnet: N/A''"
proof -
  have z: "format_f0 (percent_of d ''five_hour'') = Inr ''0''"
    if "map_of d ''five_hour'' = None" for d
    by (simp only: percent_of_absent[OF that] format_f0_0)
  have z7: "format_f0 (percent_of d ''seven_day'') = Inr ''0''"
    if "map_of d ''seven_day'' = None" for d
    by (simp only: percent_of_absent[OF that] format_f0_0)
  have u: "usage_data (initial_app\<lparr>usage_data := Some (PyDict d)\<rparr>) = Some (PyDict d)" for d
    by simp
  have x0: "example_snapshot \<noteq> []" and m0: "map_of example_snapshot ''seven_day_sonnet'' = None"
    by (simp_all add: example_snapshot_def)
  have f05: "format_f0 (percent_of example_snapshot ''five_hour'') = Inr ''73''"
    and f07: "format_f0 (percent_of example_snapshot ''seven_day'') = Inr ''10''"
    by (simp_all add: example_snapshot_def percent_of_def window_def dict_get_def
        format_f0_73 format_f0_10 del: format_f0.simps)
  have r0: "sonnet_limit (snd (update_display example_fromisoformat example_clock
         (initial_app\<lparr>usage_data := Some (PyDict example_snapshot)\<rparr>))) = ''Sonnet: N/A''"
    using sonnet_row[OF u x0 example_extractable f05 f07,
        of example_fromisoformat example_clock PyNone "[]" "''0''", unfolded Let_def] m0
    by blast
  define d1 where "d1 = [(''seven_day_sonnet'', PyDict [(''percent_used'', PyInt 42)])]"
  have e1: "extractable d1" and x1: "d1 \<noteq> []"
    and m15: "map_of d1 ''five_hour'' = None" and m17: "map_of d1 ''seven_day'' = None"
    and m1: "map_of d1 ''seven_day_sonnet'' = Some (PyDict [(''percent_used'', PyInt 42)])"
    by (simp_all add: d1_def extractable_def record_or_absent_def record_or_falsy_def)
  have p1: "format_f0 (dict_get [(''percent_used'', PyInt 42)] ''percent_used'' (PyInt 0))
              = Inr ''42''"
    by (simp add: dict_get_def format_f0_42 del: format_f0.simps)
  have t1: "time_text example_fromisoformat (now_sonnet example_clock)
              (dict_get [(''percent_used'', PyInt 42)] ''resets_at'' (PyStr '''')) = ''?''"
    by (simp add: dict_get_def time_text_falsy)
  have r1: "sonnet_limit (snd (update_display example_fromisoformat example_clock
         (initial_app\<lparr>usage_data := Some (PyDict d1)\<rparr>))) = ''Sonnet: 42% (resets in ?)''"
    using sonnet_row[OF u x1 e1 z[OF m15] z7[OF m17],
        of example_fromisoformat example_clock PyNone "[(''percent_used'', PyInt 42)]" "''42''",
        unfolded Let_def] m1 p1 t1
    by simp
  define d2 where "d2 = [(''seven_day_sonnet'', PyDict [(''resets_at'', PyStr '''')])]"
  have e2: "extractable d2" and x2: "d2 \<noteq> []"
    and m25: "map_of d2 ''five_hour'' = None" and m27: "map_of d2 ''seven_day'' = None"
    and m2: "map_of d2 ''seven_day_sonnet'' = Some (PyDict [(''resets_at'', PyStr '''')])"
    by (simp_all add: d2_def extractable_def record_or_absent_def record_or_falsy_def)
  have q2: "map_of [(''resets_at'', PyStr '''')] ''percent_used'' = None"
    and t2: "\<not> truthy (dict_get [(''resets_at'', PyStr '''')] ''resets_at'' (PyStr ''''))"
    by (simp_all add: dict_get_def)
  have r2: "sonnet_limit (snd (update_display example_fromisoformat example_clock
         (initial_app\<lparr>usage_data := Some (PyDict d2)\<rparr>))) = ''Sonnet: 0% (resets in ?)''"
    using sonnet_row[OF u x2 e2 z[OF m25] z7[OF m27],
        of example_fromisoformat example_clock PyNone "[(''resets_at'', PyStr '''')]" "''0''",
        unfolded Let_def] m2 q2 t2
    by blast
  define d3 where "d3 = [(''five_hour'', PyDict []), (''seven_day_sonnet'', PyNone)]"
  have e3: "extractable d3" and x3: "d3 \<noteq> []"
    and m37: "map_of d3 ''seven_day'' = None"
    and m3: "map_of d3 ''seven_day_sonnet'' = Some PyNone"
    by (simp_all add: d3_def extractable_def record_or_absent_def record_or_falsy_def)
  have f35: "format_f0 (percent_of d3 ''five_hour'') = Inr ''0''"
    by (simp add: d3_def percent_of_def window_def dict_get_def format_f0_0
        del: format_f0.simps)
  have t3: "\<not> truthy PyNone"
    by simp
  have r3: "sonnet_limit (snd (update_display example_fromisoformat example_clock
         (initial_app\<lparr>usage_data := Some (PyDict d3)\<rparr>))) = ''Sonnet: N/A''"
    using sonnet_row[OF u x3 e3 f35 z7[OF m37],
        of example_fromisoformat example_clock PyNone "[]" "''0''", unfolded Let_def] m3 t3
    by blast
  define d4 where "d4 = [(''seven_day_sonnet'', PyDict [(''percent_used'', PyNone)])]"
  have e4: "extractable d4" and x4: "d4 \<noteq> []"
    and m45: "map_of d4 ''five_hour'' = None" and m47: "map_of d4 ''seven_day'' = None"
    and m4: "map_of d4 ''seven_day_sonnet'' = Some (PyDict [(''percent_used'', PyNone)])"
    by (simp_all add: d4_def extractable_def record_or_absent_def record_or_falsy_def)
  have q4: "dict_get [(''percent_used'', PyNone)] ''percent_used'' (PyInt 0) = PyNone"
    and w4: "[(''percent_used'', PyNone)] \<noteq> []"
    by (simp_all add: dict_get_def)
  have r4: "sonnet_limit (snd (update_display example_fromisoformat example_clock
         (initial_app\<lparr>usage_data := Some (PyDict d4)\<rparr>))) = ''Sonnet: N/A''"
    using sonnet_row[OF u x4 e4 z[OF m45] z7[OF m47],
        of example_fromisoformat example_clock PyNone "[(''percent_used'', PyNone)]" "''0''",
        unfolded Let_def] m4 q4 w4
    by blast
  from example_extractable m0 r0 e1 r1 e2 r2 e3 r3 e4 r4 show ?thesis
    unfolding d1_def d2_def d3_def d4_def by (intro conjI)
qed

text \<open>
  The claim C1 as it is written fails for a present but empty record: the row is
  \<^verbatim>\<open>Sonnet: N/A\<close>, as for an absent key, and not \<^verbatim>\<open>Sonnet: 0% (resets in ?)\<close>. It fails
  as well for a present record whose \<^verbatim>\<open>percent_used\<close> is null, and when a mandatory window
  is null the extraction raises \<^verbatim>\<open>AttributeError\<close> before any row is written.
\<close>

theorem empty_sonnet_record_counterexample:
  "map_of [(''five_hour'', PyDict [(''percent_used'', PyInt 10)]),
           (''seven_day_sonnet'', PyDict [])] ''seven_day_sonnet'' = Some (PyDict [])
   \<and> sonnet_limit (snd (update_display example_fromisoformat example_clock
         (initial_app\<lparr>usage_data :=
            Some (PyDict [(''five_hour'', PyDict [(''percent_used'', PyInt 10)]),
                          (''seven_day_sonnet'', PyDict [])])\<rparr>)))
       = ''Sonnet: N/A''
   \<and> sonnet_limit (snd (update_display example_fromisoformat example_clock
         (initial_app\<lparr>usage_data :=
            Some (PyDict [(''five_hour'', PyDict [(''percent_used'', PyInt 10)]),
                          (''seven_day_sonnet'', PyDict [])])\<rparr>)))
       \<noteq> ''Sonnet: 0% (resets in ?)''
   \<and> sonnet_limit (snd (update_display example_fromisoformat example_clock
         (initial_app\<lparr>usage_data :=
            Some (PyDict [(''seven_day_sonnet'',
                           PyDict [(''percent_used'', PyNone),
                                   (''resets_at'', PyStr ''2030-01-01T00:50:00Z'')])])\<rparr>)))
       = ''Sonnet: N/A''
   \<and> fst (update_display example_fromisoformat example_clock
         (initial_app\<lparr>usage_data :=
            Some (PyDict [(''five_hour'', PyNone),
                          (''seven_day_sonnet'', PyDict [(''percent_used'', PyInt 42)])])\<rparr>))
       = Some AttributeError
   \<and> sonnet_limit (snd (update_display example_fromisoformat example_clock
         (initial_app\<lparr>usage_data :=
            Some (PyDict [(''five_hour'', PyNone),
                          (''seven_day_sonnet'', PyDict [(''percent_used'', PyInt 42)])])\<rparr>)))
       = ''Sonnet Limit''"
proof -
  define d1 where "d1 = [(''five_hour'', PyDict [(''percent_used'', PyInt 10)]),
                         (''seven_day_sonnet'', PyDict [])]"
  define d2 where "d2 = [(''seven_day_sonnet'',
                           PyDict [(''percent_used'', PyNone),
                                   (''resets_at'', PyStr ''2030-01-01T00:50:00Z'')])]"
  have u: "usage_data (initial_app\<lparr>usage_data := Some (PyDict d)\<rparr>) = Some (PyDict d)" for d
    by simp
  have e1: "extractable d1" and x1: "d1 \<noteq> []"
    and m1: "map_of d1 ''seven_day_sonnet'' = Some (PyDict [])"
    and w1: "window d1 ''seven_day_sonnet'' = []"
    by (simp_all add: d1_def extractable_def record_or_absent_def record_or_falsy_def
        window_def)
  have f15: "format_f0 (percent_of d1 ''five_hour'') = Inr ''10''"
    and f17: "format_f0 (percent_of d1 ''seven_day'') = Inr ''0''"
    by (simp_all add: d1_def percent_of_def window_def dict_get_def format_f0_10 format_f0_0
        del: format_f0.simps)
  have r1: "sonnet_limit (snd (update_display example_fromisoformat example_clock
         (initial_app\<lparr>usage_data := Some (PyDict d1)\<rparr>))) = ''Sonnet: N/A''"
    using update_display_sonnet_na(2)[OF u x1 e1 f15 f17, of example_fromisoformat example_clock]
      w1 by simp
  then have n1: "sonnet_limit (snd (update_display example_fromisoformat example_clock
         (initial_app\<lparr>usage_data := Some (PyDict d1)\<rparr>))) \<noteq> ''Sonnet: 0% (resets in ?)''"
    by simp
  have e2: "extractable d2" and x2: "d2 \<noteq> []"
    and p2: "percent_of d2 ''seven_day_sonnet'' = PyNone"
    by (simp_all add: d2_def extractable_def record_or_absent_def record_or_falsy_def
        percent_of_def window_def dict_get_def)
  have f25: "format_f0 (percent_of d2 ''five_hour'') = Inr ''0''"
    and f27: "format_f0 (percent_of d2 ''seven_day'') = Inr ''0''"
    by (simp_all add: d2_def percent_of_def window_def dict_get_def format_f0_0
        del: format_f0.simps)
  have r2: "sonnet_limit (snd (update_display example_fromisoformat example_clock
         (initial_app\<lparr>usage_data := Some (PyDict d2)\<rparr>))) = ''Sonnet: N/A''"
    using update_display_sonnet_na(2)[OF u x2 e2 f25 f27, of example_fromisoformat example_clock]
      p2 by simp
  have r3: "update_display example_fromisoformat example_clock
         (initial_app\<lparr>usage_data :=
            Some (PyDict [(''five_hour'', PyNone),
                          (''seven_day_sonnet'', PyDict [(''percent_used'', PyInt 42)])])\<rparr>)
       = (Some AttributeError, initial_app\<lparr>usage_data :=
            Some (PyDict [(''five_hour'', PyNone),
                          (''seven_day_sonnet'', PyDict [(''percent_used'', PyInt 42)])])\<rparr>)"
    by (simp add: update_display_def extract_fields_def get2_def dict_get_def)
  have m: "map_of d1 ''seven_day_sonnet'' = Some (PyDict [])"
    by (rule m1)
  from m r1 n1 r2 show ?thesis
    unfolding d1_def d2_def r3 by (simp add: initial_app_def)
qed

section \<open>The settings flow\<close>

lemma open_settings_no_save:
  assumes "instructions = 0 \<or> clicked session_response = 0 \<or> clicked org_response = 0
           \<or> strip (response_text session_response) = []
           \<or> strip (response_text org_response) = []"
  shows "keyring (snd (open_settings net fromisoformat clk instructions
                         session_response org_response st)) = keyring st"
    and "set_password_calls (snd (open_settings net fromisoformat clk instructions
                         session_response org_response st)) = set_password_calls st"
    and "api (snd (open_settings net fromisoformat clk instructions
                         session_response org_response st)) = api st"
    and "get_calls (snd (open_settings net fromisoformat clk instructions
                         session_response org_response st)) = get_calls st"
  using assms by (auto simp: open_settings_def Let_def)

lemma open_settings_error_dialog:
  assumes "instructions \<noteq> 0" and "clicked session_response \<noteq> 0"
    and "clicked org_response \<noteq> 0"
    and "strip (response_text session_response) = [] \<or> strip (response_text org_response) = []"
  shows "alerts (snd (open_settings net fromisoformat clk instructions
                        session_response org_response st))
           = alerts st @ [''Setup Instructions'', ''Error'']"
  using assms by (auto simp: open_settings_def Let_def)

lemma open_settings_save:
  assumes "instructions \<noteq> 0" and "clicked session_response \<noteq> 0"
    and "clicked org_response \<noteq> 0"
    and "strip (response_text session_response) = skey"
    and "strip (response_text org_response) = oid"
    and "skey \<noteq> []" and "oid \<noteq> []"
  shows "keyring (snd (open_settings net fromisoformat clk instructions
                         session_response org_response st))
           = (keyring st)(KEYRING_SESSION_KEY \<mapsto> skey, KEYRING_ORG_ID \<mapsto> oid)"
    and "set_password_calls (snd (open_settings net fromisoformat clk instructions
                         session_response org_response st))
           = set_password_calls st @ [(KEYRING_SESSION_KEY, skey), (KEYRING_ORG_ID, oid)]"
    and "api (snd (open_settings net fromisoformat clk instructions
                         session_response org_response st))
           = Some \<lparr>session_key = skey, org_id = oid\<rparr>"
    and "get_calls (snd (open_settings net fromisoformat clk instructions
                         session_response org_response st))
           = get_calls st @ [\<lparr>session_key = skey, org_id = oid\<rparr>]"
proof -
  define st2 where
    "st2 = st\<lparr>alerts := alerts st @ [''Setup Instructions''],
              windows := windows st @ [''Session Key'', ''Organization ID'']\<rparr>"
  define saved where "saved = save_credentials skey oid st2"
  obtain e st3 where r: "refresh net fromisoformat clk saved = (e, st3)"
    by fastforce
  have frame: "api st3 = api saved" "keyring st3 = keyring saved"
    "set_password_calls st3 = set_password_calls saved"
    "get_calls st3 = get_calls saved @ (case api saved of None \<Rightarrow> [] | Some a \<Rightarrow> [a])"
    using refresh_frame[of net fromisoformat clk saved] r by simp_all
  have os: "open_settings net fromisoformat clk instructions session_response org_response st =
          (case e of Some x \<Rightarrow> (Some x, st3)
           | None \<Rightarrow> (None, st3\<lparr>alerts := alerts st3 @ [''Settings Saved'']\<rparr>))"
    using assms r
    by (simp add: open_settings_def Let_def st2_def saved_def split: option.splits)
  have sv: "api saved = Some \<lparr>session_key = skey, org_id = oid\<rparr>"
    "keyring saved = (keyring st)(KEYRING_SESSION_KEY \<mapsto> skey, KEYRING_ORG_ID \<mapsto> oid)"
    "set_password_calls saved =
       set_password_calls st @ [(KEYRING_SESSION_KEY, skey), (KEYRING_ORG_ID, oid)]"
    "get_calls saved = get_calls st"
    by (simp_all add: saved_def save_credentials_def st2_def)
  show "keyring (snd (open_settings net fromisoformat clk instructions
                         session_response org_response st))
           = (keyring st)(KEYRING_SESSION_KEY \<mapsto> skey, KEYRING_ORG_ID \<mapsto> oid)"
    using os frame sv by (cases e) simp_all
  show "set_password_calls (snd (open_settings net fromisoformat clk instructions
                         session_response org_response st))
           = set_password_calls st @ [(KEYRING_SESSION_KEY, skey), (KEYRING_ORG_ID, oid)]"
    using os frame sv by (cases e) simp_all
  show "api (snd (open_settings net fromisoformat clk instructions
                         session_response org_response st))
           = Some \<lparr>session_key = skey, org_id = oid\<rparr>"
    using os frame sv by (cases e) simp_all
  show "get_calls (snd (open_settings net fromisoformat clk instructions
                         session_response org_response st))
           = get_calls st @ [\<lparr>session_key = skey, org_id = oid\<rparr>]"
    using os frame sv by (cases e) simp_all
qed

lemma strip_session_text: "strip ''  sk-ant-sid01-abc '' = ''sk-ant-sid01-abc''"
  by (simp add: strip_def isspace_def)

lemma strip_org_text: "strip '' org-1'' = ''org-1''"
  by (simp add: strip_def isspace_def)

lemma strip_blank: "strip ''   '' = []"
  by (simp add: strip_def isspace_def)

text \<open>
  C9. Once the instructions are confirmed: cancelling at either prompt writes nothing to
  the keyring, keeps the client and sends no request. When both prompts are submitted,
  \<^verbatim>\<open>keyring.set_password\<close> is called if and only if both texts are non-empty after
  \<^verbatim>\<open>strip\<close>; then both keys are written with the stripped texts, the client is rebuilt
  from them and one refresh sends a request with them; otherwise the \<^verbatim>\<open>Error\<close> dialog is
  shown and keyring, client and request log stay as they were.
\<close>

theorem settings_flow:
  "let st' = snd (open_settings net fromisoformat clk instructions session_response org_response st);
       skey = strip (response_text session_response);
       oid = strip (response_text org_response)
   in (instructions \<noteq> 0 \<and> (clicked session_response = 0 \<or> clicked org_response = 0) \<longrightarrow>
         keyring st' = keyring st \<and> set_password_calls st' = set_password_calls st
         \<and> api st' = api st \<and> get_calls st' = get_calls st)
    \<and> (instructions \<noteq> 0 \<and> clicked session_response \<noteq> 0 \<and> clicked org_response \<noteq> 0 \<longrightarrow>
         (set_password_calls st' \<noteq> set_password_calls st) = (skey \<noteq> [] \<and> oid \<noteq> [])
         \<and> (skey \<noteq> [] \<and> oid \<noteq> [] \<longrightarrow>
               set_password_calls st' =
                 set_password_calls st @ [(KEYRING_SESSION_KEY, skey), (KEYRING_ORG_ID, oid)]
               \<and> keyring st' = (keyring st)(KEYRING_SESSION_KEY \<mapsto> skey, KEYRING_ORG_ID \<mapsto> oid)
               \<and> api st' = Some \<lparr>session_key = skey, org_id = oid\<rparr>
               \<and> get_calls st' = get_calls st @ [\<lparr>session_key = skey, org_id = oid\<rparr>])
         \<and> (skey = [] \<or> oid = [] \<longrightarrow>
               alerts st' = alerts st @ [''Setup Instructions'', ''Error'']
               \<and> keyring st' = keyring st \<and> set_password_calls st' = set_password_calls st
               \<and> api st' = api st \<and> get_calls st' = get_calls st))"
proof -
  note save = open_settings_save[OF _ _ _ refl refl]
  show ?thesis
    unfolding Let_def
    by (intro conjI impI)
       (auto simp: open_settings_no_save open_settings_error_dialog save)
qed

theorem settings_flow_witness:
  "set_password_calls (snd (open_settings (\<lambda>a. Some (PyDict example_snapshot)) example_fromisoformat
       example_clock 1 \<lparr>clicked = 0, response_text = ''  sk-ant-sid01-abc ''\<rparr>
       \<lparr>clicked = 1, response_text = '' org-1''\<rparr> initial_app)) = []
   \<and> api (snd (open_settings (\<lambda>a. Some (PyDict example_snapshot)) example_fromisoformat
       example_clock 1 \<lparr>clicked = 0, response_text = ''  sk-ant-sid01-abc ''\<rparr>
       \<lparr>clicked = 1, response_text = '' org-1''\<rparr> initial_app)) = None
   \<and> set_password_calls (snd (open_settings (\<lambda>a. Some (PyDict example_snapshot)) example_fromisoformat
       example_clock 1 \<lparr>clicked = 1, response_text = ''  sk-ant-sid01-abc ''\<rparr>
       \<lparr>clicked = 0, response_text = '' org-1''\<rparr> initial_app)) = []
   \<and> strip ''  sk-ant-sid01-abc '' = ''sk-ant-sid01-abc'' \<and> strip '' org-1'' = ''org-1''
   \<and> set_password_calls (snd (open_settings (\<lambda>a. Some (PyDict example_snapshot)) example_fromisoformat
       example_clock 1 \<lparr>clicked = 1, response_text = ''  sk-ant-sid01-abc ''\<rparr>
       \<lparr>clicked = 1, response_text = '' org-1''\<rparr> initial_app))
       = [(''session_key'', ''sk-ant-sid01-abc''), (''org_id'', ''org-1'')]
   \<and> api (snd (open_settings (\<lambda>a. Some (PyDict example_snapshot)) example_fromisoformat
       example_clock 1 \<lparr>clicked = 1, response_text = ''  sk-ant-sid01-abc ''\<rparr>
       \<lparr>clicked = 1, response_text = '' org-1''\<rparr> initial_app))
       = Some \<lparr>session_key = ''sk-ant-sid01-abc'', org_id = ''org-1''\<rparr>
   \<and> get_calls (snd (open_settings (\<lambda>a. Some (PyDict example_snapshot)) example_fromisoformat
       example_clock 1 \<lparr>clicked = 1, response_text = ''  sk-ant-sid01-abc ''\<rparr>
       \<lparr>clicked = 1, response_text = '' org-1''\<rparr> initial_app))
       = [\<lparr>session_key = ''sk-ant-sid01-abc'', org_id = ''org-1''\<rparr>]
   \<and> strip ''   '' = []
   \<and> set_password_calls (snd (open_settings (\<lambda>a. Some (PyDict example_snapshot)) example_fromisoformat
       example_clock 1 \<lparr>clicked = 1, response_text = ''  sk-ant-sid01-abc ''\<rparr>
       \<lparr>clicked = 1, response_text = ''   ''\<rparr> initial_app)) = []
   \<and> alerts (snd (open_settings (\<lambda>a. Some (PyDict example_snapshot)) example_fromisoformat
       example_clock 1 \<lparr>clicked = 1, response_text = ''  sk-ant-sid01-abc ''\<rparr>
       \<lparr>clicked = 1, response_text = ''   ''\<rparr> initial_app))
       = [''Setup Instructions'', ''Error'']"
proof -
  have init: "set_password_calls initial_app = []" "api initial_app = None"
    "get_calls initial_app = []" "alerts initial_app = []"
    by (simp_all add: initial_app_def)
  note keys = KEYRING_SESSION_KEY_def KEYRING_ORG_ID_def
  note f = settings_flow[where net = "\<lambda>a. Some (PyDict example_snapshot)"
      and fromisoformat = example_fromisoformat and clk = example_clock
      and instructions = 1 and st = initial_app, unfolded Let_def]
  note c1 = f[of "\<lparr>clicked = 0, response_text = ''  sk-ant-sid01-abc ''\<rparr>"
               "\<lparr>clicked = 1, response_text = '' org-1''\<rparr>"]
  note c2 = f[of "\<lparr>clicked = 1, response_text = ''  sk-ant-sid01-abc ''\<rparr>"
               "\<lparr>clicked = 0, response_text = '' org-1''\<rparr>"]
  note c3 = f[of "\<lparr>clicked = 1, response_text = ''  sk-ant-sid01-abc ''\<rparr>"
               "\<lparr>clicked = 1, response_text = '' org-1''\<rparr>"]
  note c4 = f[of "\<lparr>clicked = 1, response_text = ''  sk-ant-sid01-abc ''\<rparr>"
               "\<lparr>clicked = 1, response_text = ''   ''\<rparr>"]
  have a: "set_password_calls (snd (open_settings (\<lambda>a. Some (PyDict example_snapshot)) example_fromisoformat
       example_clock 1 \<lparr>clicked = 0, response_text = ''  sk-ant-sid01-abc ''\<rparr>
       \<lparr>clicked = 1, response_text = '' org-1''\<rparr> initial_app)) = []
     \<and> api (snd (open_settings (\<lambda>a. Some (PyDict example_snapshot)) example_fromisoformat
       example_clock 1 \<lparr>clicked = 0, response_text = ''  sk-ant-sid01-abc ''\<rparr>
       \<lparr>clicked = 1, response_text = '' org-1''\<rparr> initial_app)) = None"
    using c1 by (simp add: init)
  have b: "set_password_calls (snd (open_settings (\<lambda>a. Some (PyDict example_snapshot)) example_fromisoformat
       example_clock 1 \<lparr>clicked = 1, response_text = ''  sk-ant-sid01-abc ''\<rparr>
       \<lparr>clicked = 0, response_text = '' org-1''\<rparr> initial_app)) = []"
    using c2 by (simp add: init)
  have c: "set_password_calls (snd (open_settings (\<lambda>a. Some (PyDict example_snapshot)) example_fromisoformat
       example_clock 1 \<lparr>clicked = 1, response_text = ''  sk-ant-sid01-abc ''\<rparr>
       \<lparr>clicked = 1, response_text = '' org-1''\<rparr> initial_app))
       = [(''session_key'', ''sk-ant-sid01-abc''), (''org_id'', ''org-1'')]
     \<and> api (snd (open_settings (\<lambda>a. Some (PyDict example_snapshot)) example_fromisoformat
       example_clock 1 \<lparr>clicked = 1, response_text = ''  sk-ant-sid01-abc ''\<rparr>
       \<lparr>clicked = 1, response_text = '' org-1''\<rparr> initial_app))
       = Some \<lparr>session_key = ''sk-ant-sid01-abc'', org_id = ''org-1''\<rparr>
     \<and> get_calls (snd (open_settings (\<lambda>a. Some (PyDict example_snapshot)) example_fromisoformat
       example_clock 1 \<lparr>clicked = 1, response_text = ''  sk-ant-sid01-abc ''\<rparr>
       \<lparr>clicked = 1, response_text = '' org-1''\<rparr> initial_app))
       = [\<lparr>session_key = ''sk-ant-sid01-abc'', org_id = ''org-1''\<rparr>]"
    using c3 by (simp add: init keys strip_session_text strip_org_text)
  have d: "set_password_calls (snd (open_settings (\<lambda>a. Some (PyDict example_snapshot)) example_fromisoformat
       example_clock 1 \<lparr>clicked = 1, response_text = ''  sk-ant-sid01-abc ''\<rparr>
       \<lparr>clicked = 1, response_text = ''   ''\<rparr> initial_app)) = []
     \<and> alerts (snd (open_settings (\<lambda>a. Some (PyDict example_snapshot)) example_fromisoformat
       example_clock 1 \<lparr>clicked = 1, response_text = ''  sk-ant-sid01-abc ''\<rparr>
       \<lparr>clicked = 1, response_text = ''   ''\<rparr> initial_app))
       = [''Setup Instructions'', ''Error'']"
    using c4 by (simp add: init strip_session_text strip_blank)
  from a b c d strip_session_text strip_org_text strip_blank show ?thesis
    by (intro conjI) blast+
qed

end
